theory Spec2Isabelle
  imports Complex_Main
begin

section \<open>Tensors\<close>

text \<open>
  The learning rules of \<^verbatim>\<open>bindsnet/learning/learning.py\<close> work on torch tensors.
  A tensor is a nested list of its entries, outermost dimension first; the entries are
  real numbers, so arithmetic is exact (no rounding, no overflow, no NaN) except where a
  definition below says otherwise.  The dense (\<^verbatim>\<open>Connection\<close>, \<^verbatim>\<open>LocalConnection\<close>) code
  paths use four shapes: a vector over the units of a population, a weight-shaped matrix
  \<^verbatim>\<open>[source.n, target.n]\<close>, and both with a leading batch dimension.
\<close>

type_synonym vec = "real list"
type_synonym mat = "real list list"
type_synonym bvec = "real list list"
type_synonym bmat = "real list list list"

text \<open>Elementwise operations (\<^verbatim>\<open>c * t\<close>, \<^verbatim>\<open>a + b\<close>, \<^verbatim>\<open>a - b\<close>, \<^verbatim>\<open>a * b\<close>).\<close>

definition v_scale :: "real \<Rightarrow> vec \<Rightarrow> vec" where
  "v_scale c v = map (\<lambda>a. c * a) v"

definition v_add :: "vec \<Rightarrow> vec \<Rightarrow> vec" where
  "v_add u v = map2 (+) u v"

definition m_scale :: "real \<Rightarrow> mat \<Rightarrow> mat" where
  "m_scale c m = map (v_scale c) m"

definition m_add :: "mat \<Rightarrow> mat \<Rightarrow> mat" where
  "m_add a b = map2 v_add a b"

definition m_sub :: "mat \<Rightarrow> mat \<Rightarrow> mat" where
  "m_sub a b = map2 (map2 (-)) a b"

definition m_mul :: "mat \<Rightarrow> mat \<Rightarrow> mat" where
  "m_mul a b = map2 (map2 (*)) a b"

definition zeros_v :: "nat \<Rightarrow> vec" where
  "zeros_v n = replicate n 0"

definition zeros_m :: "nat \<Rightarrow> nat \<Rightarrow> mat" where
  "zeros_m n m = replicate n (zeros_v m)"

text \<open>
  \<^verbatim>\<open>torch.ger(u, v)\<close>, and \<^verbatim>\<open>torch.bmm(u.unsqueeze(2), v.unsqueeze(1))\<close> for batched
  vectors: entry \<^verbatim>\<open>[i][j]\<close> is \<^verbatim>\<open>u[i] * v[j]\<close>.
\<close>

definition ger :: "vec \<Rightarrow> vec \<Rightarrow> mat" where
  "ger u v = map (\<lambda>a. map (\<lambda>b. a * b) v) u"

definition bmm_outer :: "bvec \<Rightarrow> bvec \<Rightarrow> bmat" where
  "bmm_outer us vs = map2 ger us vs"

text \<open>Shapes: \<open>is_mat n m t\<close> says that \<open>t\<close> has \<open>n\<close> rows of \<open>m\<close> entries.\<close>

definition is_mat :: "nat \<Rightarrow> nat \<Rightarrow> 'a list list \<Rightarrow> bool" where
  "is_mat n m t \<longleftrightarrow> length t = n \<and> list_all (\<lambda>r. length r = m) t"

text \<open>
  The two reductions over the batch dimension that torch offers under the names used in
  the repository, \<^verbatim>\<open>torch.sum(t, dim=0)\<close> and \<^verbatim>\<open>torch.mean(t, dim=0)\<close> (the default
  \<^verbatim>\<open>reduction\<close>), for a batch of at least one sample.
\<close>

fun torch_sum :: "bmat \<Rightarrow> mat" where
  "torch_sum [] = []"
| "torch_sum [t] = t"
| "torch_sum (t # ts) = m_add t (torch_sum ts)"

definition torch_mean :: "bmat \<Rightarrow> mat" where
  "torch_mean ts = m_scale (1 / real (length ts)) (torch_sum ts)"

section \<open>Connections and node populations\<close>

text \<open>
  \<^verbatim>\<open>connection.wmin\<close> is \<^verbatim>\<open>-np.inf\<close> or a finite number, \<^verbatim>\<open>connection.wmax\<close> is
  \<^verbatim>\<open>np.inf\<close> or a finite number.
\<close>

datatype lower_bound = NegInf | Lo real
datatype upper_bound = PosInf | Hi real

text \<open>
  The attributes of the external \<^verbatim>\<open>AbstractConnection\<close> and \<^verbatim>\<open>Nodes\<close> objects that the
  learning rules read and write.  The one-letter attributes \<^verbatim>\<open>w\<close>, \<^verbatim>\<open>dt\<close>, \<^verbatim>\<open>s\<close>, \<^verbatim>\<open>x\<close>
  carry the name of their class as a prefix.  Spikes are kept as the numbers that
  \<^verbatim>\<open>.float()\<close> yields, already flattened to \<^verbatim>\<open>[batch_size, n]\<close> as
  \<^verbatim>\<open>.view(batch_size, -1)\<close> does; \<open>nodes_n\<close> is \<^verbatim>\<open>Nodes.n\<close>, the number of units, which
  is also the \<^verbatim>\<open>shape\<close> of a flat population.
\<close>

record connection =
  conn_w :: mat
  conn_wmin :: lower_bound
  conn_wmax :: upper_bound
  conn_dt :: real

record nodes =
  nodes_s :: bvec
  nodes_x :: bvec
  nodes_x_neg :: bvec
  nodes_s_prob :: bvec
  batch_size :: nat
  nodes_n :: nat

section \<open>The base class \<^verbatim>\<open>LearningRule\<close>\<close>

datatype rule_class =
  NoOp | PostPre | WeightDependentPostPre | Hebbian | MSTDP | MSTDPET | Rmax

text \<open>
  \<open>rule_class\<close> is the class of the object (what \<^verbatim>\<open>isinstance(self, NoOp)\<close> asks);
  \<open>nu\<close> is the pair \<^verbatim>\<open>[nu[0], nu[1]]\<close> that the constructor leaves in \<^verbatim>\<open>self.nu\<close>.
  Subclasses extend the record with their own attributes.
\<close>

record learning_rule =
  rule_class :: rule_class
  connection :: connection
  source :: nodes
  target :: nodes
  nu :: "real \<times> real"
  reduction :: "bmat \<Rightarrow> mat"
  weight_decay :: real
  post_spike_weight_decay :: real

text \<open>
  \<^verbatim>\<open>Tensor.clamp_(min, max)\<close> takes every entry \<open>v\<close> to \<open>min (max v lo) hi\<close>; an infinite
  bound leaves its side open.
\<close>

fun clamp_entry :: "lower_bound \<Rightarrow> upper_bound \<Rightarrow> real \<Rightarrow> real" where
  "clamp_entry lo hi v =
     (let v1 = (case lo of NegInf \<Rightarrow> v | Lo a \<Rightarrow> max v a)
      in case hi of PosInf \<Rightarrow> v1 | Hi b \<Rightarrow> min v1 b)"

definition clamp_m :: "lower_bound \<Rightarrow> upper_bound \<Rightarrow> mat \<Rightarrow> mat" where
  "clamp_m lo hi t = map (map (clamp_entry lo hi)) t"

text \<open>
  \<^verbatim>\<open>LearningRule.update\<close>: weight decay when \<^verbatim>\<open>self.weight_decay\<close> is truthy, then the
  clamp under the source's condition
  \<^verbatim>\<open>(wmin != -np.inf or wmax != np.inf) and not isinstance(self, NoOp)\<close>.
\<close>

definition LearningRule_update :: "'a learning_rule_scheme \<Rightarrow> 'a learning_rule_scheme" where
  "LearningRule_update self =
     (let c = connection self;
          c1 = (if weight_decay self \<noteq> 0
                then c\<lparr>conn_w := m_sub (conn_w c) (m_scale (weight_decay self) (conn_w c))\<rparr>
                else c);
          c2 = (if (conn_wmin c1 \<noteq> NegInf \<or> conn_wmax c1 \<noteq> PosInf)
                   \<and> rule_class self \<noteq> NoOp
                then c1\<lparr>conn_w := clamp_m (conn_wmin c1) (conn_wmax c1) (conn_w c1)\<rparr>
                else c1)
      in self\<lparr>connection := c2\<rparr>)"

text \<open>
  The bounds enforcer as the specification words it: the clamp is skipped when either
  bound is infinite or the rule is NoOp.
\<close>

definition spec_bounds_enforcer ::
  "rule_class \<Rightarrow> real \<Rightarrow> lower_bound \<Rightarrow> upper_bound \<Rightarrow> mat \<Rightarrow> mat" where
  "spec_bounds_enforcer cls wd lo hi t =
     (let t1 = m_scale (1 - wd) t
      in if lo = NegInf \<or> hi = PosInf \<or> cls = NoOp then t1 else clamp_m lo hi t1)"


section \<open>Calls, exceptions and keyword arguments\<close>

text \<open>
  The exceptions that the modelled code can raise.  An update call mutates \<^verbatim>\<open>self\<close> in
  place, so its outcome carries the object as the call leaves it: \<open>Returned\<close> after a
  normal return, \<open>Raised\<close> with the exception and the object at the moment of the raise.
\<close>

datatype error = KeyError string | IndexError | ValueError | OverflowError

datatype 's outcome = Raised error 's | Returned 's

text \<open>
  The keyword arguments that the update methods read: \<^verbatim>\<open>reward\<close>
  (\<^verbatim>\<open>Union[float, torch.Tensor]\<close>, a number or a weight-shaped tensor), \<^verbatim>\<open>a_plus\<close> and
  \<^verbatim>\<open>a_minus\<close> (\<^verbatim>\<open>float\<close>).  \<open>None\<close> is a key that the caller did not pass.
\<close>

datatype reward = Scalar real | PerSynapse mat

record kwargs =
  kw_reward :: "reward option"
  kw_a_plus :: "real option"
  kw_a_minus :: "real option"

definition no_kwargs :: kwargs where
  "no_kwargs = \<lparr>kw_reward = None, kw_a_plus = None, kw_a_minus = None\<rparr>"

text \<open>\<^verbatim>\<open>c * reward\<close>, \<^verbatim>\<open>reward * t\<close> and its broadcast over a leading batch dimension.\<close>

fun reward_scale :: "real \<Rightarrow> reward \<Rightarrow> reward" where
  "reward_scale c (Scalar r) = Scalar (c * r)"
| "reward_scale c (PerSynapse t) = PerSynapse (m_scale c t)"

fun reward_mul :: "reward \<Rightarrow> mat \<Rightarrow> mat" where
  "reward_mul (Scalar r) t = m_scale r t"
| "reward_mul (PerSynapse rt) t = m_mul rt t"

definition reward_mul_b :: "reward \<Rightarrow> bmat \<Rightarrow> bmat" where
  "reward_mul_b r ts = map (reward_mul r) ts"

text \<open>
  The reward that multiplies synapse \<open>(i, j)\<close>: a number is broadcast to every synapse, a
  tensor is read at the synapse.  A tensor reward is well shaped when it has the shape of
  the weights.
\<close>

fun reward_at :: "reward \<Rightarrow> nat \<Rightarrow> nat \<Rightarrow> real" where
  "reward_at (Scalar r) i j = r"
| "reward_at (PerSynapse t) i j = t ! i ! j"

fun reward_shaped :: "nat \<Rightarrow> nat \<Rightarrow> reward \<Rightarrow> bool" where
  "reward_shaped n m (Scalar r) = True"
| "reward_shaped n m (PerSynapse t) = is_mat n m t"

text \<open>Reading and writing \<^verbatim>\<open>self.connection.w\<close>, and \<^verbatim>\<open>self.connection.w.shape\<close>.\<close>

definition get_w :: "'a learning_rule_scheme \<Rightarrow> mat" where
  "get_w self = conn_w (connection self)"

definition set_w :: "mat \<Rightarrow> 'a learning_rule_scheme \<Rightarrow> 'a learning_rule_scheme" where
  "set_w t self = self\<lparr>connection := (connection self)\<lparr>conn_w := t\<rparr>\<rparr>"

definition shape0 :: "'a list list \<Rightarrow> nat" where
  "shape0 t = length t"

definition shape1 :: "'a list list \<Rightarrow> nat" where
  "shape1 t = (case t of [] \<Rightarrow> 0 | r # _ \<Rightarrow> length r)"

section \<open>\<^verbatim>\<open>NoOp\<close>, \<^verbatim>\<open>PostPre\<close> and \<^verbatim>\<open>Hebbian\<close>\<close>

text \<open>\<^verbatim>\<open>NoOp.update(**kwargs)\<close> only calls \<^verbatim>\<open>super().update()\<close>.\<close>

definition NoOp_update :: "kwargs \<Rightarrow> 'a learning_rule_scheme \<Rightarrow> 'a learning_rule_scheme" where
  "NoOp_update kw self = LearningRule_update self"

text \<open>
  \<^verbatim>\<open>PostPre._connection_update\<close>: the pre-synaptic update is applied only when \<^verbatim>\<open>nu[0]\<close>
  is truthy, the post-synaptic one only when \<^verbatim>\<open>nu[1]\<close> is.
\<close>

definition PostPre_connection_update ::
  "kwargs \<Rightarrow> 'a learning_rule_scheme \<Rightarrow> 'a learning_rule_scheme" where
  "PostPre_connection_update kw self =
     (let source_s = nodes_s (source self);
          source_x = nodes_x (source self);
          target_s = nodes_s (target self);
          target_x = nodes_x (target self);
          self1 = (if fst (nu self) \<noteq> 0
                   then (let update = reduction self (bmm_outer source_s target_x)
                         in set_w (m_sub (get_w self) (m_scale (fst (nu self)) update)) self)
                   else self);
          self2 = (if snd (nu self1) \<noteq> 0
                   then (let update = reduction self1 (bmm_outer source_x target_s)
                         in set_w (m_add (get_w self1) (m_scale (snd (nu self1)) update)) self1)
                   else self1)
      in LearningRule_update self2)"

text \<open>\<^verbatim>\<open>Hebbian._connection_update\<close>: both updates are added, without a test of \<^verbatim>\<open>nu\<close>.\<close>

definition Hebbian_connection_update ::
  "kwargs \<Rightarrow> 'a learning_rule_scheme \<Rightarrow> 'a learning_rule_scheme" where
  "Hebbian_connection_update kw self =
     (let source_s = nodes_s (source self);
          source_x = nodes_x (source self);
          target_s = nodes_s (target self);
          target_x = nodes_x (target self);
          update = reduction self (bmm_outer source_s target_x);
          self1 = set_w (m_add (get_w self) (m_scale (fst (nu self)) update)) self;
          update' = reduction self1 (bmm_outer source_x target_s);
          self2 = set_w (m_add (get_w self1) (m_scale (snd (nu self1)) update')) self1
      in LearningRule_update self2)"

text \<open>
  A dense rule object is well shaped for \<open>b\<close> samples, \<open>n\<close> source units and \<open>m\<close> target
  units when the tensors it reads have the shapes that the network gives them, and its
  reduction removes the batch dimension.
\<close>

definition dense_shaped :: "nat \<Rightarrow> nat \<Rightarrow> nat \<Rightarrow> 'a learning_rule_scheme \<Rightarrow> bool" where
  "dense_shaped b n m self \<longleftrightarrow>
     is_mat n m (get_w self) \<and>
     is_mat b n (nodes_s (source self)) \<and> is_mat b n (nodes_x (source self)) \<and>
     is_mat b m (nodes_s (target self)) \<and> is_mat b m (nodes_x (target self)) \<and>
     is_mat n m (reduction self (bmm_outer (nodes_s (source self)) (nodes_x (target self)))) \<and>
     is_mat n m (reduction self (bmm_outer (nodes_x (source self)) (nodes_s (target self))))"

section \<open>The reward-modulated rules\<close>

text \<open>Batched versions of the elementwise operations.\<close>

definition bv_scale :: "real \<Rightarrow> bvec \<Rightarrow> bvec" where
  "bv_scale c vs = map (v_scale c) vs"

definition bv_add :: "bvec \<Rightarrow> bvec \<Rightarrow> bvec" where
  "bv_add us vs = map2 v_add us vs"

definition bm_add :: "bmat \<Rightarrow> bmat \<Rightarrow> bmat" where
  "bm_add as bs = map2 m_add as bs"

definition m_div :: "mat \<Rightarrow> real \<Rightarrow> mat" where
  "m_div t c = map (map (\<lambda>a. a / c)) t"

text \<open>
  The outcome of a call as a state, and the network's part between two calls: it
  presents the spikes of the new time step to the rule.
\<close>

fun outcome_state :: "'s outcome \<Rightarrow> 's" where
  "outcome_state (Raised e s) = s"
| "outcome_state (Returned s) = s"

record step_input =
  in_source_s :: bvec
  in_target_s :: bvec
  in_kwargs :: kwargs

definition present :: "step_input \<Rightarrow> 'a learning_rule_scheme \<Rightarrow> 'a learning_rule_scheme" where
  "present i self =
     self\<lparr>source := (source self)\<lparr>nodes_s := in_source_s i\<rparr>,
          target := (target self)\<lparr>nodes_s := in_target_s i\<rparr>\<rparr>"

subsection \<open>\<^verbatim>\<open>MSTDP\<close>\<close>

text \<open>
  An attribute that \<^verbatim>\<open>hasattr\<close> does not find yet is \<open>None\<close>.  The constructor stores
  \<^verbatim>\<open>tc_plus\<close> and \<^verbatim>\<open>tc_minus\<close>.
\<close>

record mstdp = learning_rule +
  tc_plus :: real
  tc_minus :: real
  p_plus :: "bvec option"
  p_minus :: "bvec option"
  eligibility :: "bmat option"

text \<open>
  The point eligibility of \<^verbatim>\<open>MSTDP._connection_update\<close>:
  \<^verbatim>\<open>bmm(p_plus.unsqueeze(2), target_s.unsqueeze(1)) + bmm(source_s.unsqueeze(2), p_minus.unsqueeze(1))\<close>.
\<close>

definition point_eligibility :: "bvec \<Rightarrow> bvec \<Rightarrow> bvec \<Rightarrow> bvec \<Rightarrow> bmat" where
  "point_eligibility pp pm source_s target_s =
     bm_add (bmm_outer pp target_s) (bmm_outer source_s pm)"

text \<open>
  \<^verbatim>\<open>MSTDP._connection_update\<close>.  The three attributes are created where missing, then
  \<^verbatim>\<open>kwargs["reward"]\<close> is read, which raises \<^verbatim>\<open>KeyError\<close> when the key is absent; the
  weights are updated from the stored eligibility before the traces and the eligibility
  are recomputed.
\<close>

definition MSTDP_connection_update :: "kwargs \<Rightarrow> 'a mstdp_scheme \<Rightarrow> 'a mstdp_scheme outcome" where
  "MSTDP_connection_update kw self =
     (let batch = batch_size (source self);
          pp = (case p_plus self of
                  None \<Rightarrow> replicate batch (zeros_v (nodes_n (source self))) | Some t \<Rightarrow> t);
          pm = (case p_minus self of
                  None \<Rightarrow> replicate batch (zeros_v (nodes_n (target self))) | Some t \<Rightarrow> t);
          el = (case eligibility self of
                  None \<Rightarrow> replicate batch (zeros_m (shape0 (get_w self)) (shape1 (get_w self)))
                | Some t \<Rightarrow> t);
          self1 = self\<lparr>p_plus := Some pp, p_minus := Some pm, eligibility := Some el\<rparr>;
          source_s = nodes_s (source self1);
          target_s = nodes_s (target self1)
      in case kw_reward kw of
           None \<Rightarrow> Raised (KeyError ''reward'') self1
         | Some reward \<Rightarrow>
             (let a_plus = (case kw_a_plus kw of None \<Rightarrow> 1 | Some a \<Rightarrow> a);
                  a_minus = (case kw_a_minus kw of None \<Rightarrow> - 1 | Some a \<Rightarrow> a);
                  update = reward_mul_b reward el;
                  self2 = set_w (m_add (get_w self1)
                                   (m_scale (fst (nu self1)) (reduction self1 update))) self1;
                  pp1 = bv_scale (exp (- conn_dt (connection self2) / tc_plus self2)) pp;
                  pp2 = bv_add pp1 (bv_scale a_plus source_s);
                  pm1 = bv_scale (exp (- conn_dt (connection self2) / tc_minus self2)) pm;
                  pm2 = bv_add pm1 (bv_scale a_minus target_s);
                  self3 = self2\<lparr>p_plus := Some pp2, p_minus := Some pm2,
                            eligibility := Some (point_eligibility pp2 pm2 source_s target_s)\<rparr>
              in Returned (LearningRule_update self3)))"

text \<open>A sequence of calls, one per time step; an exception ends it.\<close>

fun MSTDP_run :: "'a mstdp_scheme \<Rightarrow> step_input list \<Rightarrow> 'a mstdp_scheme outcome" where
  "MSTDP_run self [] = Returned self"
| "MSTDP_run self (i # is) =
     (case MSTDP_connection_update (in_kwargs i) (present i self) of
        Raised e self' \<Rightarrow> Raised e self'
      | Returned self' \<Rightarrow> MSTDP_run self' is)"

subsection \<open>\<^verbatim>\<open>MSTDPET\<close>\<close>

text \<open>
  The dense MSTDPET update keeps its state without a batch dimension and flattens the
  spikes with \<^verbatim>\<open>.view(-1)\<close>.  Its attributes carry the prefix \<open>et_\<close> where MSTDP has
  one of the same name.
\<close>

record mstdpet = learning_rule +
  et_tc_plus :: real
  et_tc_minus :: real
  tc_e_trace :: real
  et_p_plus :: "vec option"
  et_p_minus :: "vec option"
  et_eligibility :: "mat option"
  eligibility_trace :: "mat option"

definition MSTDPET_connection_update ::
  "kwargs \<Rightarrow> 'a mstdpet_scheme \<Rightarrow> 'a mstdpet_scheme outcome" where
  "MSTDPET_connection_update kw self =
     (let pp = (case et_p_plus self of None \<Rightarrow> zeros_v (nodes_n (source self)) | Some t \<Rightarrow> t);
          pm = (case et_p_minus self of None \<Rightarrow> zeros_v (nodes_n (target self)) | Some t \<Rightarrow> t);
          el = (case et_eligibility self of
                  None \<Rightarrow> zeros_m (shape0 (get_w self)) (shape1 (get_w self)) | Some t \<Rightarrow> t);
          tr = (case eligibility_trace self of
                  None \<Rightarrow> zeros_m (shape0 (get_w self)) (shape1 (get_w self)) | Some t \<Rightarrow> t);
          self1 = self\<lparr>et_p_plus := Some pp, et_p_minus := Some pm,
                      et_eligibility := Some el, eligibility_trace := Some tr\<rparr>;
          source_s = concat (nodes_s (source self1));
          target_s = concat (nodes_s (target self1))
      in case kw_reward kw of
           None \<Rightarrow> Raised (KeyError ''reward'') self1
         | Some reward \<Rightarrow>
             (let a_plus = (case kw_a_plus kw of None \<Rightarrow> 1 | Some a \<Rightarrow> a);
                  a_minus = (case kw_a_minus kw of None \<Rightarrow> - 1 | Some a \<Rightarrow> a);
                  dt = conn_dt (connection self1);
                  tr1 = m_scale (exp (- dt / tc_e_trace self1)) tr;
                  tr2 = m_add tr1 (m_div el (tc_e_trace self1));
                  self2 = set_w (m_add (get_w self1)
                                   (reward_mul (reward_scale (fst (nu self1) * dt) reward) tr2))
                            (self1\<lparr>eligibility_trace := Some tr2\<rparr>);
                  pp1 = v_scale (exp (- dt / et_tc_plus self2)) pp;
                  pp2 = v_add pp1 (v_scale a_plus source_s);
                  pm1 = v_scale (exp (- dt / et_tc_minus self2)) pm;
                  pm2 = v_add pm1 (v_scale a_minus target_s);
                  self3 = self2\<lparr>et_p_plus := Some pp2, et_p_minus := Some pm2,
                            et_eligibility := Some (m_add (ger pp2 target_s) (ger source_s pm2))\<rparr>
              in Returned (LearningRule_update self3)))"

fun MSTDPET_run :: "'a mstdpet_scheme \<Rightarrow> step_input list \<Rightarrow> 'a mstdpet_scheme outcome" where
  "MSTDPET_run self [] = Returned self"
| "MSTDPET_run self (i # is) =
     (case MSTDPET_connection_update (in_kwargs i) (present i self) of
        Raised e self' \<Rightarrow> Raised e self'
      | Returned self' \<Rightarrow> MSTDPET_run self' is)"

subsection \<open>\<^verbatim>\<open>Rmax\<close>\<close>

record rmax = learning_rule +
  tc_c :: real
  rmax_tc_e_trace :: real
  rmax_eligibility_trace :: "mat option"

text \<open>
  \<^verbatim>\<open>(target_s - target_s_prob / (1.0 + tc_c / dt * target_s_prob)) * source_x[:, None]\<close>:
  the row vector over the target units is broadcast against the column of source traces.
\<close>

definition rmax_increment :: "real \<Rightarrow> real \<Rightarrow> vec \<Rightarrow> vec \<Rightarrow> vec \<Rightarrow> mat" where
  "rmax_increment c dt target_s target_s_prob source_x =
     (let g = map2 (\<lambda>sp p. sp - p / (1 + c / dt * p)) target_s target_s_prob
      in map (\<lambda>a. map (\<lambda>b. b * a) g) source_x)"

definition Rmax_connection_update :: "kwargs \<Rightarrow> 'a rmax_scheme \<Rightarrow> 'a rmax_scheme outcome" where
  "Rmax_connection_update kw self =
     (let tr = (case rmax_eligibility_trace self of
                  None \<Rightarrow> zeros_m (shape0 (get_w self)) (shape1 (get_w self)) | Some t \<Rightarrow> t);
          self1 = self\<lparr>rmax_eligibility_trace := Some tr\<rparr>;
          target_s = concat (nodes_s (target self1));
          target_s_prob = concat (nodes_s_prob (target self1));
          source_x = concat (nodes_x (source self1))
      in case kw_reward kw of
           None \<Rightarrow> Raised (KeyError ''reward'') self1
         | Some reward \<Rightarrow>
             (let dt = conn_dt (connection self1);
                  tr1 = m_scale (1 - dt / rmax_tc_e_trace self1) tr;
                  tr2 = m_add tr1 (rmax_increment (tc_c self1) dt target_s target_s_prob source_x);
                  self2 = set_w (m_add (get_w self1)
                                   (reward_mul (reward_scale (fst (nu self1)) reward) tr2))
                            (self1\<lparr>rmax_eligibility_trace := Some tr2\<rparr>)
              in Returned (LearningRule_update self2)))"

subsection \<open>State read by the next call\<close>

text \<open>
  The tensors that a call finds in the attributes, with the zeros that the call itself
  creates where an attribute is missing, and the shapes of a well-shaped Rmax object.
\<close>

definition MSTDP_stored_eligibility :: "'a mstdp_scheme \<Rightarrow> bmat" where
  "MSTDP_stored_eligibility self =
     (case eligibility self of
        None \<Rightarrow> replicate (batch_size (source self))
                  (zeros_m (shape0 (get_w self)) (shape1 (get_w self)))
      | Some t \<Rightarrow> t)"

definition MSTDPET_stored_eligibility :: "'a mstdpet_scheme \<Rightarrow> mat" where
  "MSTDPET_stored_eligibility self =
     (case et_eligibility self of
        None \<Rightarrow> zeros_m (shape0 (get_w self)) (shape1 (get_w self)) | Some t \<Rightarrow> t)"

definition MSTDPET_stored_trace :: "'a mstdpet_scheme \<Rightarrow> mat" where
  "MSTDPET_stored_trace self =
     (case eligibility_trace self of
        None \<Rightarrow> zeros_m (shape0 (get_w self)) (shape1 (get_w self)) | Some t \<Rightarrow> t)"

definition rmax_shaped :: "nat \<Rightarrow> nat \<Rightarrow> 'a rmax_scheme \<Rightarrow> bool" where
  "rmax_shaped n m self \<longleftrightarrow>
     is_mat n m (get_w self) \<and>
     length (concat (nodes_x (source self))) = n \<and>
     length (concat (nodes_s (target self))) = m \<and>
     length (concat (nodes_s_prob (target self))) = m \<and>
     (case rmax_eligibility_trace self of None \<Rightarrow> True | Some t \<Rightarrow> is_mat n m t)"

section \<open>\<^verbatim>\<open>WeightDependentPostPre\<close>\<close>

subsection \<open>Floating-point values that are not numbers\<close>

text \<open>
  The calibrated lookup receives the logarithm of a product of spikes and traces, which
  is \<^verbatim>\<open>-inf\<close> at zero and \<^verbatim>\<open>nan\<close> below it.  These values decide which branch the
  lookup takes, so the argument of the lookup is a matrix of \<open>fl\<close>: a real number, an
  infinity or NaN.  A comparison with NaN is false.
\<close>

datatype fl = Fin real | PInf | NInf | NaN

fun np_log :: "real \<Rightarrow> fl" where
  "np_log v = (if 0 < v then Fin (ln v) else if v = 0 then NInf else NaN)"

fun fl_scale :: "real \<Rightarrow> fl \<Rightarrow> fl" where
  "fl_scale c (Fin v) = Fin (c * v)"
| "fl_scale c PInf = (if 0 < c then PInf else if c < 0 then NInf else NaN)"
| "fl_scale c NInf = (if 0 < c then NInf else if c < 0 then PInf else NaN)"
| "fl_scale c NaN = NaN"

fun fl_add :: "fl \<Rightarrow> real \<Rightarrow> fl" where
  "fl_add (Fin v) c = Fin (v + c)"
| "fl_add PInf c = PInf"
| "fl_add NInf c = NInf"
| "fl_add NaN c = NaN"

fun fl_gt :: "fl \<Rightarrow> real \<Rightarrow> bool" where
  "fl_gt (Fin v) c = (c < v)"
| "fl_gt PInf c = True"
| "fl_gt NInf c = False"
| "fl_gt NaN c = False"

fun fl_lt :: "fl \<Rightarrow> real \<Rightarrow> bool" where
  "fl_lt (Fin v) c = (v < c)"
| "fl_lt PInf c = False"
| "fl_lt NInf c = True"
| "fl_lt NaN c = False"

text \<open>
  Python's \<^verbatim>\<open>int(x)\<close> truncates towards zero and raises on NaN and on an infinity;
  \<^verbatim>\<open>round(x)\<close> rounds to the nearest integer, a tie to the even one.
\<close>

fun py_int :: "fl \<Rightarrow> error + int" where
  "py_int (Fin v) = Inr (if 0 \<le> v then \<lfloor>v\<rfloor> else \<lceil>v\<rceil>)"
| "py_int PInf = Inl OverflowError"
| "py_int NInf = Inl OverflowError"
| "py_int NaN = Inl ValueError"

definition py_round :: "real \<Rightarrow> int" where
  "py_round v =
     (let f = \<lfloor>v\<rfloor>; d = v - of_int f
      in if d < 1/2 then f else if 1/2 < d then f + 1 else if even f then f else f + 1)"

subsection \<open>Indexing and loops that can raise\<close>

text \<open>
  \<^verbatim>\<open>t[i]\<close> for an integer \<open>i\<close>: a negative index counts from the end, an index out of
  range raises \<^verbatim>\<open>IndexError\<close>.
\<close>

definition tensor_get :: "'a list \<Rightarrow> int \<Rightarrow> error + 'a" where
  "tensor_get t i =
     (let n = int (length t); j = (if i < 0 then n + i else i)
      in if 0 \<le> j \<and> j < n then Inr (t ! nat j) else Inl IndexError)"

text \<open>
  A loop over the entries of one tensor, or over the entries of one tensor while it
  reads a second one at the same index; the first exception ends the loop.
\<close>

fun traverse :: "('a \<Rightarrow> error + 'b) \<Rightarrow> 'a list \<Rightarrow> error + 'b list" where
  "traverse f [] = Inr []"
| "traverse f (a # as) =
     (case f a of
        Inl e \<Rightarrow> Inl e
      | Inr b \<Rightarrow> (case traverse f as of Inl e \<Rightarrow> Inl e | Inr bs \<Rightarrow> Inr (b # bs)))"

fun traverse2 :: "('a \<Rightarrow> 'b \<Rightarrow> error + 'c) \<Rightarrow> 'a list \<Rightarrow> 'b list \<Rightarrow> error + 'c list" where
  "traverse2 f [] bs = Inr []"
| "traverse2 f (a # as) [] = Inl IndexError"
| "traverse2 f (a # as) (b # bs) =
     (case f a b of
        Inl e \<Rightarrow> Inl e
      | Inr c \<Rightarrow> (case traverse2 f as bs of Inl e \<Rightarrow> Inl e | Inr cs \<Rightarrow> Inr (c # cs)))"

subsection \<open>The calibration table\<close>

text \<open>
  The constructor fills \<^verbatim>\<open>torch.zeros([101, 120])\<close> from the lines of \<^verbatim>\<open>STDP.txt\<close>:
  the number \<open>k\<close> of line \<open>i\<close> goes to \<^verbatim>\<open>STDP_base[i][k]\<close>.  The file is given as the
  numbers of its lines.
\<close>

fun fill_row :: "real list \<Rightarrow> nat \<Rightarrow> real list \<Rightarrow> error + real list" where
  "fill_row row k [] = Inr row"
| "fill_row row k (v # vs) =
     (if k < length row then fill_row (row[k := v]) (Suc k) vs else Inl IndexError)"

fun fill_table :: "mat \<Rightarrow> nat \<Rightarrow> real list list \<Rightarrow> error + mat" where
  "fill_table tab i [] = Inr tab"
| "fill_table tab i (line # lines) =
     (if line = [] then fill_table tab (Suc i) lines
      else if i < length tab
           then (case fill_row (tab ! i) 0 line of
                   Inl e \<Rightarrow> Inl e
                 | Inr row \<Rightarrow> fill_table (tab[i := row]) (Suc i) lines)
           else Inl IndexError)"

definition load_STDP_base :: "real list list \<Rightarrow> error + mat" where
  "load_STDP_base lines = fill_table (zeros_m 101 120) 0 lines"

subsection \<open>The rule\<close>

record wdpp = learning_rule +
  tc_trace :: real
  tc_trace_neg :: real
  STDP_base :: mat

text \<open>
  \<^verbatim>\<open>round_to_percent\<close>: each weight is divided by \<^verbatim>\<open>nu[0]\<close>, multiplied by 100, rounded
  and made non-negative.  With \<^verbatim>\<open>nu[0] = 0\<close> the quotient is an infinity or NaN, on which
  \<^verbatim>\<open>round\<close> raises.
\<close>

definition percent_entry :: "real \<Rightarrow> real \<Rightarrow> error + int" where
  "percent_entry nu0 v =
     (if nu0 = 0 then (if v = 0 then Inl ValueError else Inl OverflowError)
      else (let r = py_round (v / nu0 * 100) in Inr (if r < 0 then - r else r)))"

definition round_to_percent :: "'a learning_rule_scheme \<Rightarrow> mat \<Rightarrow> error + int list list" where
  "round_to_percent self tensor = traverse (traverse (percent_entry (fst (nu self)))) tensor"

text \<open>
  The body of the loop of \<^verbatim>\<open>delta_w_custom\<close> for one synapse: the guard on the delta
  index, then \<^verbatim>\<open>STDP_base[int(first_index)][int(second_index)]\<close>, whose row is read
  before the column index is converted.
\<close>

definition guarded_index :: "fl \<Rightarrow> fl" where
  "guarded_index second = (if fl_gt second 120 \<or> fl_lt second 0 then Fin 0 else second)"

definition lookup_cell :: "mat \<Rightarrow> int \<Rightarrow> fl \<Rightarrow> error + real" where
  "lookup_cell base first second =
     (case tensor_get base first of
        Inl e \<Rightarrow> Inl e
      | Inr row \<Rightarrow>
          (case py_int (guarded_index second) of
             Inl e \<Rightarrow> Inl e
           | Inr c \<Rightarrow> tensor_get row c))"

text \<open>
  \<^verbatim>\<open>delta_w_custom\<close>, for a \<open>delta\<close> that has at least the shape of the weights (the
  entries that the loop visits are returned).
\<close>

definition delta_w_custom :: "'a wdpp_scheme \<Rightarrow> fl list list \<Rightarrow> error + mat" where
  "delta_w_custom self delta =
     (case round_to_percent self (get_w self) of
        Inl e \<Rightarrow> Inl e
      | Inr first_index \<Rightarrow>
          (let second_index = map (map (\<lambda>d. fl_add d 60)) delta
           in traverse2 (traverse2 (lookup_cell (STDP_base self))) first_index second_index))"

text \<open>
  \<^verbatim>\<open>WeightDependentPostPre._connection_update\<close>.  The running \<^verbatim>\<open>update\<close> starts as the
  number 0, so its first value is the first term.  An exception of the lookup leaves the
  object as it was.
\<close>

definition WeightDependentPostPre_connection_update ::
  "kwargs \<Rightarrow> 'a wdpp_scheme \<Rightarrow> 'a wdpp_scheme outcome" where
  "WeightDependentPostPre_connection_update kw self =
     (let source_s = nodes_s (source self);
          source_x = nodes_x (source self);
          target_s = nodes_s (target self);
          target_x = nodes_x_neg (target self);
          outer_product = reduction self (bmm_outer source_s target_x)
      in case delta_w_custom self
                (map (map (\<lambda>v. fl_scale (tc_trace_neg self) (np_log v))) outer_product) of
           Inl e \<Rightarrow> Raised e self
         | Inr d1 \<Rightarrow>
             (let update1 = m_scale (fst (nu self)) d1;
                  outer_product' = reduction self (bmm_outer source_x target_s)
              in case delta_w_custom self
                        (map (map (\<lambda>v. fl_scale (- tc_trace self) (np_log v))) outer_product') of
                   Inl e \<Rightarrow> Raised e self
                 | Inr d2 \<Rightarrow>
                     (let update2 = m_add update1 (m_scale (snd (nu self)) d2);
                          ones = map (map (\<lambda>_. 1)) source_x;
                          update3 = m_add update2
                            (m_mul (m_scale (- post_spike_weight_decay self) (get_w self))
                               (reduction self (bmm_outer ones target_s)))
                      in Returned (LearningRule_update
                                     (set_w (m_add (get_w self) update3) self)))))"

section \<open>Concrete objects\<close>

text \<open>
  A small network used to run the definitions: two samples, two source units, one target
  unit, the default reduction \<^verbatim>\<open>torch.mean\<close> and \<^verbatim>\<open>dt = 1\<close>.
\<close>

definition example_source :: nodes where
  "example_source =
     \<lparr>nodes_s = [[1, 0], [1, 1]], nodes_x = [[1/2, 1/4], [1, 0]],
      nodes_x_neg = [[0, 0], [0, 0]], nodes_s_prob = [[0, 0], [0, 0]],
      batch_size = 2, nodes_n = 2\<rparr>"

definition example_target :: nodes where
  "example_target =
     \<lparr>nodes_s = [[1], [0]], nodes_x = [[1/2], [1]],
      nodes_x_neg = [[0], [0]], nodes_s_prob = [[1/2], [1/2]],
      batch_size = 2, nodes_n = 1\<rparr>"

definition example_rule ::
  "rule_class \<Rightarrow> mat \<Rightarrow> lower_bound \<Rightarrow> upper_bound \<Rightarrow> real \<times> real \<Rightarrow> real \<Rightarrow> learning_rule"
  where
  "example_rule cls t lo hi lr wd =
     \<lparr>rule_class = cls,
      connection = \<lparr>conn_w = t, conn_wmin = lo, conn_wmax = hi, conn_dt = 1\<rparr>,
      source = example_source, target = example_target,
      nu = lr, reduction = torch_mean, weight_decay = wd, post_spike_weight_decay = 0\<rparr>"

text \<open>
  The same network with a single sample, for the rules that keep no batch dimension, and
  objects of the three reward-modulated classes on it, before their first call.
\<close>

definition example_source1 :: nodes where
  "example_source1 =
     \<lparr>nodes_s = [[1, 0]], nodes_x = [[1/2, 1/4]],
      nodes_x_neg = [[0, 0]], nodes_s_prob = [[0, 0]],
      batch_size = 1, nodes_n = 2\<rparr>"

definition example_target1 :: nodes where
  "example_target1 =
     \<lparr>nodes_s = [[1]], nodes_x = [[1/2]],
      nodes_x_neg = [[0]], nodes_s_prob = [[1/2]],
      batch_size = 1, nodes_n = 1\<rparr>"

definition example_mstdp :: mstdp where
  "example_mstdp =
     \<lparr>rule_class = MSTDP,
      connection = \<lparr>conn_w = [[0], [0]], conn_wmin = NegInf, conn_wmax = PosInf, conn_dt = 1\<rparr>,
      source = example_source, target = example_target,
      nu = (1, 1), reduction = torch_mean, weight_decay = 0, post_spike_weight_decay = 0,
      tc_plus = 20, tc_minus = 20, p_plus = None, p_minus = None, eligibility = None\<rparr>"

definition example_mstdpet :: mstdpet where
  "example_mstdpet =
     \<lparr>rule_class = MSTDPET,
      connection = \<lparr>conn_w = [[0], [0]], conn_wmin = NegInf, conn_wmax = PosInf, conn_dt = 1\<rparr>,
      source = example_source1, target = example_target1,
      nu = (1, 1), reduction = torch_mean, weight_decay = 0, post_spike_weight_decay = 0,
      et_tc_plus = 20, et_tc_minus = 20, tc_e_trace = 25,
      et_p_plus = None, et_p_minus = None, et_eligibility = None, eligibility_trace = None\<rparr>"

definition example_rmax :: rmax where
  "example_rmax =
     \<lparr>rule_class = Rmax,
      connection = \<lparr>conn_w = [[0], [0]], conn_wmin = NegInf, conn_wmax = PosInf, conn_dt = 1\<rparr>,
      source = example_source1, target = example_target1,
      nu = (1, 1), reduction = torch_mean, weight_decay = 0, post_spike_weight_decay = 0,
      tc_c = 5, rmax_tc_e_trace = 25, rmax_eligibility_trace = None\<rparr>"

text \<open>Calls with a reward of 2 and \<^verbatim>\<open>a_plus = 2\<close>, and the inputs of two time steps.\<close>

definition example_kwargs :: kwargs where
  "example_kwargs = \<lparr>kw_reward = Some (Scalar 2), kw_a_plus = Some 2, kw_a_minus = None\<rparr>"

definition example_step :: step_input where
  "example_step =
     \<lparr>in_source_s = [[1, 0], [1, 1]], in_target_s = [[1], [0]], in_kwargs = example_kwargs\<rparr>"

definition example_step1 :: step_input where
  "example_step1 =
     \<lparr>in_source_s = [[1, 0]], in_target_s = [[1]], in_kwargs = example_kwargs\<rparr>"

text \<open>
  A calibration table whose entry \<open>[r][c]\<close> is \<open>1000 * r + c\<close>, and an object of the
  calibrated rule with this table on the single-sample network.
\<close>

definition example_table :: mat where
  "example_table = map (\<lambda>r. map (\<lambda>c. real (1000 * r + c)) [0..<120]) [0..<101]"

definition example_wdpp :: "mat \<Rightarrow> real \<times> real \<Rightarrow> wdpp" where
  "example_wdpp t lr =
     \<lparr>rule_class = WeightDependentPostPre,
      connection = \<lparr>conn_w = t, conn_wmin = Lo 0, conn_wmax = Hi 1, conn_dt = 1\<rparr>,
      source = example_source1, target = example_target1,
      nu = lr, reduction = torch_mean, weight_decay = 0, post_spike_weight_decay = 0,
      tc_trace = 20, tc_trace_neg = 20, STDP_base = example_table\<rparr>"

text \<open>
  Objects of the reward-modulated classes in the middle of a run, with stored state,
  learning rates \<open>(3, 5)\<close> and \<^verbatim>\<open>dt = 2\<close>, and a call with a per-synapse reward.
\<close>

definition example_mstdp_running :: mstdp where
  "example_mstdp_running =
     \<lparr>rule_class = MSTDP,
      connection = \<lparr>conn_w = [[1], [2]], conn_wmin = NegInf, conn_wmax = PosInf, conn_dt = 2\<rparr>,
      source = example_source, target = example_target,
      nu = (3, 5), reduction = torch_mean, weight_decay = 0, post_spike_weight_decay = 0,
      tc_plus = 20, tc_minus = 20,
      p_plus = Some [[1, 1], [0, 1]], p_minus = Some [[- 1], [- 1]],
      eligibility = Some [[[1], [1]], [[0], [1]]]\<rparr>"

definition example_mstdpet_running :: mstdpet where
  "example_mstdpet_running =
     \<lparr>rule_class = MSTDPET,
      connection = \<lparr>conn_w = [[1], [2]], conn_wmin = NegInf, conn_wmax = PosInf, conn_dt = 2\<rparr>,
      source = example_source1, target = example_target1,
      nu = (3, 5), reduction = torch_mean, weight_decay = 0, post_spike_weight_decay = 0,
      et_tc_plus = 20, et_tc_minus = 20, tc_e_trace = 25,
      et_p_plus = Some [1, 1], et_p_minus = Some [- 1],
      et_eligibility = Some [[3], [5]], eligibility_trace = Some [[1], [2]]\<rparr>"

definition example_rmax_running :: rmax where
  "example_rmax_running =
     \<lparr>rule_class = Rmax,
      connection = \<lparr>conn_w = [[1], [2]], conn_wmin = NegInf, conn_wmax = PosInf, conn_dt = 2\<rparr>,
      source = example_source1, target = example_target1,
      nu = (3, 5), reduction = torch_mean, weight_decay = 0, post_spike_weight_decay = 0,
      tc_c = 5, rmax_tc_e_trace = 25, rmax_eligibility_trace = Some [[5], [10]]\<rparr>"

definition example_kwargs_tensor :: kwargs where
  "example_kwargs_tensor =
     \<lparr>kw_reward = Some (PerSynapse [[2], [7]]), kw_a_plus = Some 2, kw_a_minus = None\<rparr>"

definition example_step_tensor :: step_input where
  "example_step_tensor =
     \<lparr>in_source_s = [[1, 0], [1, 1]], in_target_s = [[1], [0]],
      in_kwargs = example_kwargs_tensor\<rparr>"

definition example_step1_tensor :: step_input where
  "example_step1_tensor =
     \<lparr>in_source_s = [[1, 0]], in_target_s = [[1]], in_kwargs = example_kwargs_tensor\<rparr>"

section \<open>Algebra of the tensor operations\<close>

lemmas tensor_defs =
  v_scale_def v_add_def m_scale_def m_add_def m_sub_def m_mul_def zeros_v_def zeros_m_def
  ger_def bmm_outer_def torch_mean_def clamp_m_def get_w_def set_w_def

lemmas example_defs = example_rule_def example_source_def example_target_def

lemma v_decay: "map2 (-) v (v_scale c v) = v_scale (1 - c) v"
  by (induction v) (simp_all add: v_scale_def algebra_simps)

lemma m_decay: "m_sub t (m_scale c t) = m_scale (1 - c) t"
  by (induction t) (simp_all add: m_sub_def m_scale_def v_decay)

lemma v_scale_one: "v_scale 1 v = v"
  by (simp add: v_scale_def)

lemma m_scale_one: "m_scale 1 t = t"
  by (simp add: m_scale_def v_scale_one cong: map_cong)

lemma v_scale_zero_sub: "length u = length v \<Longrightarrow> map2 (-) u (v_scale 0 v) = u"
  by (induction u v rule: list_induct2) (simp_all add: v_scale_def)

lemma v_scale_zero_add: "length u = length v \<Longrightarrow> v_add u (v_scale 0 v) = u"
  by (induction u v rule: list_induct2) (simp_all add: v_scale_def v_add_def)

subsection \<open>Shapes\<close>

lemma is_mat_Cons: "is_mat (Suc n) m (r # t) \<longleftrightarrow> length r = m \<and> is_mat n m t"
  by (auto simp add: is_mat_def)

lemma is_mat_nth: "is_mat n m t \<Longrightarrow> i < n \<Longrightarrow> length (t ! i) = m"
  by (simp add: is_mat_def list_all_length)

lemma is_mat_map2:
  "is_mat n m a \<Longrightarrow> is_mat n m b \<Longrightarrow> is_mat n m (map2 (map2 f) a b)"
proof (induction a arbitrary: n b)
  case Nil
  then show ?case by (simp add: is_mat_def)
next
  case (Cons r a)
  then obtain r' b' where b: "b = r' # b'" by (cases b) (auto simp: is_mat_def)
  with Cons.prems obtain k where "n = Suc k" by (auto simp: is_mat_def)
  with Cons b show ?case by (simp add: is_mat_Cons)
qed

lemma is_mat_m_sub: "is_mat n m a \<Longrightarrow> is_mat n m b \<Longrightarrow> is_mat n m (m_sub a b)"
  by (simp add: m_sub_def is_mat_map2)

lemma is_mat_m_add: "is_mat n m a \<Longrightarrow> is_mat n m b \<Longrightarrow> is_mat n m (m_add a b)"
  unfolding m_add_def v_add_def by (rule is_mat_map2)

lemma is_mat_m_scale: "is_mat n m a \<Longrightarrow> is_mat n m (m_scale c a)"
  by (simp add: is_mat_def m_scale_def v_scale_def list_all_iff)

lemma m_sub_zero: "is_mat n m a \<Longrightarrow> is_mat n m b \<Longrightarrow> m_sub a (m_scale 0 b) = a"
proof (induction a arbitrary: n b)
  case Nil
  then show ?case by (simp add: m_sub_def)
next
  case (Cons r a)
  then obtain r' b' where b: "b = r' # b'" by (cases b) (auto simp: is_mat_def)
  with Cons.prems obtain k where "n = Suc k" by (auto simp: is_mat_def)
  with Cons b show ?case
    by (auto simp add: is_mat_Cons m_sub_def m_scale_def v_scale_zero_sub)
qed

lemma m_add_zero: "is_mat n m a \<Longrightarrow> is_mat n m b \<Longrightarrow> m_add a (m_scale 0 b) = a"
proof (induction a arbitrary: n b)
  case Nil
  then show ?case by (simp add: m_add_def)
next
  case (Cons r a)
  then obtain r' b' where b: "b = r' # b'" by (cases b) (auto simp: is_mat_def)
  with Cons.prems obtain k where "n = Suc k" by (auto simp: is_mat_def)
  with Cons b show ?case
    by (auto simp add: is_mat_Cons m_add_def m_scale_def v_scale_zero_add)
qed

subsection \<open>Entries\<close>

lemma m_scale_nth:
  "is_mat n m a \<Longrightarrow> i < n \<Longrightarrow> j < m \<Longrightarrow> m_scale c a ! i ! j = c * (a ! i ! j)"
  by (simp add: is_mat_def list_all_length m_scale_def v_scale_def)

lemma m_add_nth:
  "is_mat n m a \<Longrightarrow> is_mat n m b \<Longrightarrow> i < n \<Longrightarrow> j < m \<Longrightarrow>
   m_add a b ! i ! j = a ! i ! j + b ! i ! j"
  by (simp add: is_mat_def list_all_length m_add_def v_add_def)

lemma m_sub_nth:
  "is_mat n m a \<Longrightarrow> is_mat n m b \<Longrightarrow> i < n \<Longrightarrow> j < m \<Longrightarrow>
   m_sub a b ! i ! j = a ! i ! j - b ! i ! j"
  by (simp add: is_mat_def list_all_length m_sub_def)

subsection \<open>Reading and writing the weight matrix\<close>

lemma set_w_same: "set_w (get_w self) self = self"
  by (simp add: set_w_def get_w_def)

lemma set_w_fields [simp]:
  "get_w (set_w t self) = t"
  "nu (set_w t self) = nu self"
  "reduction (set_w t self) = reduction self"
  "source (set_w t self) = source self"
  "target (set_w t self) = target self"
  "rule_class (set_w t self) = rule_class self"
  "weight_decay (set_w t self) = weight_decay self"
  "conn_wmin (connection (set_w t self)) = conn_wmin (connection self)"
  "conn_wmax (connection (set_w t self)) = conn_wmax (connection self)"
  "conn_dt (connection (set_w t self)) = conn_dt (connection self)"
  "set_w t (set_w t' self) = set_w t self"
  by (simp_all add: set_w_def get_w_def)

section \<open>The shared decay and clamp step\<close>

lemma LearningRule_update_w:
  "get_w (LearningRule_update self) =
     (let t1 = m_scale (1 - weight_decay self) (get_w self)
      in if (conn_wmin (connection self) = NegInf \<and> conn_wmax (connection self) = PosInf)
            \<or> rule_class self = NoOp
         then t1
         else clamp_m (conn_wmin (connection self)) (conn_wmax (connection self)) t1)"
  by (auto simp add: LearningRule_update_def Let_def m_decay m_scale_one get_w_def)

lemma LearningRule_update_fields [simp]:
  "rule_class (LearningRule_update self) = rule_class self"
  "nu (LearningRule_update self) = nu self"
  "reduction (LearningRule_update self) = reduction self"
  "source (LearningRule_update self) = source self"
  "target (LearningRule_update self) = target self"
  "weight_decay (LearningRule_update self) = weight_decay self"
  "conn_wmin (connection (LearningRule_update self)) = conn_wmin (connection self)"
  "conn_wmax (connection (LearningRule_update self)) = conn_wmax (connection self)"
  "conn_dt (connection (LearningRule_update self)) = conn_dt (connection self)"
  by (simp_all add: LearningRule_update_def Let_def)

lemma clamp_entry_bounds: "a \<le> b \<Longrightarrow> a \<le> clamp_entry (Lo a) (Hi b) v \<and> clamp_entry (Lo a) (Hi b) v \<le> b"
  by (simp add: Let_def)

lemma LearningRule_update_bounded:
  assumes "rule_class self \<noteq> NoOp"
    and "conn_wmin (connection self) = Lo a" and "conn_wmax (connection self) = Hi b"
    and "a \<le> b"
  shows "\<forall>r \<in> set (get_w (LearningRule_update self)). \<forall>v \<in> set r. a \<le> v \<and> v \<le> b"
  using assms clamp_entry_bounds [of a b]
  by (auto simp add: LearningRule_update_w Let_def clamp_m_def simp del: clamp_entry.simps)

text \<open>
  C1 (amended).  The shared step first subtracts \<open>weight_decay * w\<close> from the weights and
  then clamps them into \<open>[wmin, wmax]\<close>; the clamp is skipped only when both bounds are
  infinite or the rule is NoOp.  For every weight matrix, decay and pair of bounds the
  weights afterwards are \<open>clamp ((1 - weight_decay) * w) wmin wmax\<close> under that
  condition, and \<open>(1 - weight_decay) * w\<close> when the clamp is skipped.
\<close>

theorem LearningRule_update_decay_then_clamp:
  "get_w (LearningRule_update self) =
     (if rule_class self = NoOp
         \<or> (conn_wmin (connection self) = NegInf \<and> conn_wmax (connection self) = PosInf)
      then m_scale (1 - weight_decay self) (get_w self)
      else clamp_m (conn_wmin (connection self)) (conn_wmax (connection self))
             (m_scale (1 - weight_decay self) (get_w self)))"
  by (auto simp add: LearningRule_update_w Let_def)

theorem LearningRule_update_decay_then_clamp_witness:
  "get_w (LearningRule_update (example_rule PostPre [[2, -3]] NegInf (Hi 1) (0, 0) (1/2)))
     = [[1, -3/2]]"
  using LearningRule_update_decay_then_clamp
          [of "example_rule PostPre [[2, -3]] NegInf (Hi 1) (0, 0) (1/2)"]
  by (simp add: example_defs tensor_defs)

text \<open>
  C1 as the specification states it fails: with \<open>wmin = -inf\<close> and \<open>wmax = 1\<close> one bound
  is infinite, so the stated condition skips the clamp and leaves the weight \<open>2\<close>, while
  the code clamps it to \<open>1\<close>.
\<close>

theorem LearningRule_update_one_infinite_bound_counterexample:
  "get_w (LearningRule_update (example_rule PostPre [[2, -3]] NegInf (Hi 1) (0, 0) 0))
     \<noteq> spec_bounds_enforcer PostPre 0 NegInf (Hi 1) [[2, -3]]"
  by (simp add: LearningRule_update_def spec_bounds_enforcer_def example_defs tensor_defs)

section \<open>Hebbian and PostPre\<close>

text \<open>
  C3.  For the Hebbian rule on a dense connection with \<open>wmin = -inf\<close>, \<open>wmax = +inf\<close>,
  \<open>weight_decay = 0\<close> and \<open>nu = [0.1, 0.2]\<close>, one update call yields
  \<open>w + 0.1 * reduce (outer pre_spike post_trace) + 0.2 * reduce (outer pre_trace post_spike)\<close>:
  both terms are added.  On a well-shaped object this holds entry by entry.
\<close>

theorem Hebbian_connection_update_exact:
  assumes "conn_wmin (connection self) = NegInf" and "conn_wmax (connection self) = PosInf"
    and "weight_decay self = 0" and "nu self = (1/10, 2/10)"
  shows "get_w (Hebbian_connection_update kw self) =
           m_add (m_add (get_w self)
                    (m_scale (1/10)
                       (reduction self (bmm_outer (nodes_s (source self)) (nodes_x (target self))))))
                 (m_scale (2/10)
                    (reduction self (bmm_outer (nodes_x (source self)) (nodes_s (target self)))))
         \<and> (dense_shaped b n m self \<longrightarrow> (\<forall>i<n. \<forall>j<m.
              get_w (Hebbian_connection_update kw self) ! i ! j =
                get_w self ! i ! j
                + 1/10 * (reduction self
                            (bmm_outer (nodes_s (source self)) (nodes_x (target self))) ! i ! j)
                + 2/10 * (reduction self
                            (bmm_outer (nodes_x (source self)) (nodes_s (target self))) ! i ! j)))"
proof -
  define pre where
    "pre = reduction self (bmm_outer (nodes_s (source self)) (nodes_x (target self)))"
  define post where
    "post = reduction self (bmm_outer (nodes_x (source self)) (nodes_s (target self)))"
  have eq: "get_w (Hebbian_connection_update kw self) =
      m_add (m_add (get_w self) (m_scale (1/10) pre)) (m_scale (2/10) post)"
    using assms
    by (simp add: Hebbian_connection_update_def Let_def LearningRule_update_w m_scale_one
          pre_def post_def)
  have "get_w (Hebbian_connection_update kw self) ! i ! j =
      get_w self ! i ! j + 1/10 * (pre ! i ! j) + 2/10 * (post ! i ! j)"
    if shaped: "dense_shaped b n m self" and i: "i < n" and j: "j < m" for i j
  proof -
    have w: "is_mat n m (get_w self)" and pre: "is_mat n m pre" and post: "is_mat n m post"
      using shaped by (simp_all add: dense_shaped_def pre_def post_def)
    have "is_mat n m (m_add (get_w self) (m_scale (1/10) pre))"
      using w pre by (simp add: is_mat_m_add is_mat_m_scale)
    then show ?thesis
      unfolding eq using w pre post i j
      by (simp add: m_add_nth [of n m] m_scale_nth [of n m] is_mat_m_scale)
  qed
  with eq show ?thesis
    unfolding pre_def post_def by blast
qed

theorem Hebbian_connection_update_exact_witness:
  "get_w (Hebbian_connection_update no_kwargs
            (example_rule Hebbian [[1/2], [1/2]] NegInf PosInf (1/10, 2/10) 0))
     = [[5/8], [23/40]]
   \<and> dense_shaped 2 2 1 (example_rule Hebbian [[1/2], [1/2]] NegInf PosInf (1/10, 2/10) 0)
   \<and> get_w (Hebbian_connection_update no_kwargs
            (example_rule Hebbian [[1/2], [1/2]] NegInf PosInf (1/10, 2/10) 0)) ! 1 ! 0
     = 1/2 + 1/10 * (1/2) + 2/10 * (1/8)"
proof -
  let ?r = "example_rule Hebbian [[1/2], [1/2]] NegInf PosInf (1/10, 2/10) 0"
  have shaped: "dense_shaped 2 2 1 ?r"
    by (simp add: dense_shaped_def is_mat_def example_defs tensor_defs)
  have bounds: "conn_wmin (connection ?r) = NegInf" "conn_wmax (connection ?r) = PosInf"
    "weight_decay ?r = 0" "nu ?r = (1/10, 2/10)"
    by (simp_all add: example_defs)
  note fact = Hebbian_connection_update_exact [OF bounds, of no_kwargs 2 2 1]
  have "get_w (Hebbian_connection_update no_kwargs ?r) = [[5/8], [23/40]]"
    using fact by (simp add: example_defs tensor_defs)
  then show ?thesis
    using shaped by simp
qed

text \<open>
  C4.  For every PostPre dense update on a well-shaped object, whatever the learning
  rates, spikes and traces, the weights that reach the shared decay and clamp step are
  \<open>w - nu[0] * reduce (outer pre_spike post_trace) + nu[1] * reduce (outer pre_trace post_spike)\<close>:
  the pre-synaptic term is subtracted and the post-synaptic term is added, entry by
  entry.
\<close>

theorem PostPre_connection_update_delta:
  assumes "dense_shaped b n m self"
  shows "PostPre_connection_update kw self =
     LearningRule_update
       (set_w (m_add (m_sub (get_w self)
                 (m_scale (fst (nu self))
                    (reduction self (bmm_outer (nodes_s (source self)) (nodes_x (target self))))))
                 (m_scale (snd (nu self))
                    (reduction self (bmm_outer (nodes_x (source self)) (nodes_s (target self))))))
          self)
   \<and> (\<forall>i<n. \<forall>j<m.
        m_add (m_sub (get_w self)
                 (m_scale (fst (nu self))
                    (reduction self (bmm_outer (nodes_s (source self)) (nodes_x (target self))))))
              (m_scale (snd (nu self))
                 (reduction self (bmm_outer (nodes_x (source self)) (nodes_s (target self)))))
          ! i ! j
        = get_w self ! i ! j
          - fst (nu self)
            * (reduction self (bmm_outer (nodes_s (source self)) (nodes_x (target self))) ! i ! j)
          + snd (nu self)
            * (reduction self (bmm_outer (nodes_x (source self)) (nodes_s (target self))) ! i ! j))"
proof -
  define pre where
    "pre = reduction self (bmm_outer (nodes_s (source self)) (nodes_x (target self)))"
  define post where
    "post = reduction self (bmm_outer (nodes_x (source self)) (nodes_s (target self)))"
  have w: "is_mat n m (get_w self)" and pre: "is_mat n m pre" and post: "is_mat n m post"
    using assms by (simp_all add: dense_shaped_def pre_def post_def)
  have skip_pre: "m_sub (get_w self) (m_scale 0 pre) = get_w self"
    using w pre by (rule m_sub_zero)
  have sub: "is_mat n m (m_sub (get_w self) (m_scale (fst (nu self)) pre))"
    using w pre by (simp add: is_mat_m_sub is_mat_m_scale)
  then have skip_post:
    "m_add (m_sub (get_w self) (m_scale (fst (nu self)) pre)) (m_scale 0 post)
      = m_sub (get_w self) (m_scale (fst (nu self)) pre)"
    using post by (rule m_add_zero)
  have call: "PostPre_connection_update kw self =
     LearningRule_update
       (set_w (m_add (m_sub (get_w self) (m_scale (fst (nu self)) pre))
                 (m_scale (snd (nu self)) post)) self)"
    unfolding PostPre_connection_update_def Let_def
    using skip_pre skip_post
    by (cases "fst (nu self) = 0"; cases "snd (nu self) = 0")
       (simp_all add: set_w_same pre_def post_def)
  have entry: "m_add (m_sub (get_w self) (m_scale (fst (nu self)) pre))
                 (m_scale (snd (nu self)) post) ! i ! j
      = get_w self ! i ! j - fst (nu self) * (pre ! i ! j) + snd (nu self) * (post ! i ! j)"
    if "i < n" "j < m" for i j
    using that w pre post sub
    by (simp add: m_add_nth [of n m] m_sub_nth [of n m] m_scale_nth [of n m] is_mat_m_scale)
  from call entry show ?thesis
    unfolding pre_def post_def by blast
qed

theorem PostPre_connection_update_delta_witness:
  "dense_shaped 2 2 1 (example_rule PostPre [[1/2], [1/2]] NegInf PosInf (0, 2) 0)
   \<and> get_w (PostPre_connection_update no_kwargs
              (example_rule PostPre [[1/2], [1/2]] NegInf PosInf (0, 2) 0))
     = [[1], [3/4]]
   \<and> dense_shaped 2 2 1 (example_rule PostPre [[1/2], [1/2]] NegInf PosInf (2, 3) 0)
   \<and> get_w (PostPre_connection_update no_kwargs
              (example_rule PostPre [[1/2], [1/2]] NegInf PosInf (2, 3) 0))
     = [[- 1/4], [- 1/8]]
   \<and> get_w (PostPre_connection_update no_kwargs
              (example_rule PostPre [[1/2], [1/2]] NegInf PosInf (2, 3) 0)) ! 1 ! 0
     = 1/2 - 2 * (1/2) + 3 * (1/8)"
proof -
  let ?r = "example_rule PostPre [[1/2], [1/2]] NegInf PosInf (0, 2) 0"
  let ?q = "example_rule PostPre [[1/2], [1/2]] NegInf PosInf (2, 3) 0"
  have shaped: "dense_shaped 2 2 1 ?r" "dense_shaped 2 2 1 ?q"
    by (simp_all add: dense_shaped_def is_mat_def example_defs tensor_defs)
  have pre: "reduction ?q (bmm_outer (nodes_s (source ?q)) (nodes_x (target ?q)))
      = [[3/4], [1/2]]"
    and post: "reduction ?q (bmm_outer (nodes_x (source ?q)) (nodes_s (target ?q)))
      = [[1/4], [1/8]]"
    and q: "get_w ?q = [[1/2], [1/2]]" "nu ?q = (2, 3)" "weight_decay ?q = 0"
      "conn_wmin (connection ?q) = NegInf" "conn_wmax (connection ?q) = PosInf"
    by (simp_all add: example_defs tensor_defs)
  note r_fact = PostPre_connection_update_delta [OF shaped(1), of no_kwargs]
  note q_fact = PostPre_connection_update_delta [OF shaped(2), of no_kwargs]
  have r_w: "get_w (PostPre_connection_update no_kwargs ?r) = [[1], [3/4]]"
    unfolding r_fact [THEN conjunct1]
    by (simp add: LearningRule_update_def example_defs tensor_defs)
  let ?W = "m_add (m_sub (get_w ?q)
                 (m_scale (fst (nu ?q))
                    (reduction ?q (bmm_outer (nodes_s (source ?q)) (nodes_x (target ?q))))))
              (m_scale (snd (nu ?q))
                 (reduction ?q (bmm_outer (nodes_x (source ?q)) (nodes_s (target ?q)))))"
  have same: "get_w (PostPre_connection_update no_kwargs ?q) = ?W"
    unfolding q_fact [THEN conjunct1]
    by (simp add: LearningRule_update_w Let_def q m_scale_one)
  from q_fact [THEN conjunct2, rule_format, of 1 0]
  have e1: "?W ! 1 ! 0 = 1/2 - 2 * (1/2) + 3 * (1/8)"
    unfolding pre post q by simp
  have "?W = [[- 1/4], [- 1/8]]"
    unfolding pre post q by (simp add: tensor_defs)
  with same e1 have
    "get_w (PostPre_connection_update no_kwargs ?q) = [[- 1/4], [- 1/8]]"
    "get_w (PostPre_connection_update no_kwargs ?q) ! 1 ! 0 = 1/2 - 2 * (1/2) + 3 * (1/8)"
    by simp_all
  with shaped r_w show ?thesis
    by blast
qed

text \<open>
  C7.  For a PostPre rule on a connection with \<open>wmin = 0\<close> and \<open>wmax = 1\<close>, after every
  update call every entry of the weight matrix lies in \<open>[0, 1]\<close>, whatever the spikes,
  traces, learning rates and weight decay.
\<close>

theorem PostPre_connection_update_in_unit_interval:
  assumes "rule_class self = PostPre"
    and "conn_wmin (connection self) = Lo 0" and "conn_wmax (connection self) = Hi 1"
  shows "\<forall>r \<in> set (get_w (PostPre_connection_update kw self)). \<forall>v \<in> set r. 0 \<le> v \<and> v \<le> 1"
  unfolding PostPre_connection_update_def Let_def
  by (rule LearningRule_update_bounded) (simp_all add: assms)

theorem PostPre_connection_update_in_unit_interval_witness:
  "get_w (PostPre_connection_update no_kwargs
            (example_rule PostPre [[1/2], [1/2]] (Lo 0) (Hi 1) (2, 0) 0)) = [[0], [0]]
   \<and> list_all (list_all (\<lambda>v. 0 \<le> v \<and> v \<le> 1))
        (get_w (PostPre_connection_update no_kwargs
            (example_rule PostPre [[1/2], [1/2]] (Lo 0) (Hi 1) (2, 0) 0)))"
proof -
  let ?r = "example_rule PostPre [[1/2], [1/2]] (Lo 0) (Hi 1) (2, 0) 0"
  have "rule_class ?r = PostPre" "conn_wmin (connection ?r) = Lo 0"
    "conn_wmax (connection ?r) = Hi 1"
    by (simp_all add: example_defs)
  from PostPre_connection_update_in_unit_interval [OF this, of no_kwargs]
  have "list_all (list_all (\<lambda>v. 0 \<le> v \<and> v \<le> 1)) (get_w (PostPre_connection_update no_kwargs ?r))"
    unfolding list_all_iff .
  then show ?thesis
    by (simp add: PostPre_connection_update_def LearningRule_update_def example_defs tensor_defs)
qed

section \<open>The reward-modulated rules\<close>

subsection \<open>Frame lemmas\<close>

lemma LearningRule_update_conn_w:
  "conn_w (connection (LearningRule_update self)) =
     (let t1 = m_scale (1 - weight_decay self) (conn_w (connection self))
      in if (conn_wmin (connection self) = NegInf \<and> conn_wmax (connection self) = PosInf)
            \<or> rule_class self = NoOp
         then t1
         else clamp_m (conn_wmin (connection self)) (conn_wmax (connection self)) t1)"
  using LearningRule_update_w [of self] by (simp add: get_w_def)

lemma present_fields [simp]:
  "get_w (present i self) = get_w self"
  "nu (present i self) = nu self"
  "reduction (present i self) = reduction self"
  "connection (present i self) = connection self"
  "rule_class (present i self) = rule_class self"
  "weight_decay (present i self) = weight_decay self"
  "nodes_s (source (present i self)) = in_source_s i"
  "nodes_s (target (present i self)) = in_target_s i"
  "batch_size (source (present i self)) = batch_size (source self)"
  "nodes_n (source (present i self)) = nodes_n (source self)"
  "nodes_n (target (present i self)) = nodes_n (target self)"
  by (simp_all add: present_def get_w_def)

lemma present_frame:
  "get_w (LearningRule_update (set_w t (present j self)))
     = get_w (LearningRule_update (set_w t self))"
  by (simp add: LearningRule_update_w Let_def)

lemma is_mat_zeros: "is_mat n m t \<Longrightarrow> is_mat n m (zeros_m (shape0 t) (shape1 t))"
  by (cases t)
     (auto simp add: is_mat_def zeros_m_def zeros_v_def shape0_def shape1_def list_all_iff)

lemma is_mat_ger: "is_mat (length u) (length v) (ger u v)"
  by (simp add: is_mat_def ger_def list_all_iff)

lemma ger_nth: "i < length u \<Longrightarrow> j < length v \<Longrightarrow> ger u v ! i ! j = u ! i * v ! j"
  by (simp add: ger_def)

subsection \<open>Entries of the reward-modulated updates\<close>

lemma m_mul_nth:
  "is_mat n m a \<Longrightarrow> is_mat n m b \<Longrightarrow> i < n \<Longrightarrow> j < m \<Longrightarrow>
   m_mul a b ! i ! j = a ! i ! j * b ! i ! j"
  by (simp add: is_mat_def list_all_length m_mul_def)

lemma m_div_nth:
  "is_mat n m a \<Longrightarrow> i < n \<Longrightarrow> j < m \<Longrightarrow> m_div a c ! i ! j = a ! i ! j / c"
  by (simp add: is_mat_def list_all_length m_div_def)

lemma is_mat_m_div: "is_mat n m a \<Longrightarrow> is_mat n m (m_div a c)"
  by (simp add: is_mat_def m_div_def list_all_iff)

lemma is_mat_m_mul: "is_mat n m a \<Longrightarrow> is_mat n m b \<Longrightarrow> is_mat n m (m_mul a b)"
  by (simp add: m_mul_def is_mat_map2)

lemma reward_scale_shaped: "reward_shaped n m r \<Longrightarrow> reward_shaped n m (reward_scale c r)"
  by (cases r) (simp_all add: is_mat_m_scale)

lemma reward_scale_at:
  "reward_shaped n m r \<Longrightarrow> i < n \<Longrightarrow> j < m \<Longrightarrow>
   reward_at (reward_scale c r) i j = c * reward_at r i j"
  by (cases r) (simp_all add: m_scale_nth)

lemma is_mat_reward_mul:
  "reward_shaped n m r \<Longrightarrow> is_mat n m t \<Longrightarrow> is_mat n m (reward_mul r t)"
  by (cases r) (simp_all add: is_mat_m_scale is_mat_m_mul)

lemma reward_mul_nth:
  "reward_shaped n m r \<Longrightarrow> is_mat n m t \<Longrightarrow> i < n \<Longrightarrow> j < m \<Longrightarrow>
   reward_mul r t ! i ! j = reward_at r i j * t ! i ! j"
  by (cases r) (simp_all add: m_scale_nth m_mul_nth)

lemma reward_mul_b_nth:
  "reward_shaped n m r \<Longrightarrow> list_all (is_mat n m) ts \<Longrightarrow> c < length ts \<Longrightarrow> i < n \<Longrightarrow> j < m \<Longrightarrow>
   reward_mul_b r ts ! c ! i ! j = reward_at r i j * ts ! c ! i ! j"
  by (simp add: reward_mul_b_def list_all_length reward_mul_nth)

lemma ger_sum_nth:
  "i < length pp \<Longrightarrow> i < length src \<Longrightarrow> k < length tgt \<Longrightarrow> k < length pm \<Longrightarrow>
   m_add (ger pp tgt) (ger src pm) ! i ! k = pp ! i * tgt ! k + src ! i * pm ! k"
  by (simp add: m_add_def v_add_def ger_def)

lemma point_eligibility_nth:
  "c < length pp \<Longrightarrow> c < length pm \<Longrightarrow> c < length src \<Longrightarrow> c < length tgt \<Longrightarrow>
   i < length (pp ! c) \<Longrightarrow> i < length (src ! c) \<Longrightarrow>
   k < length (tgt ! c) \<Longrightarrow> k < length (pm ! c) \<Longrightarrow>
   point_eligibility pp pm src tgt ! c ! i ! k
     = pp ! c ! i * tgt ! c ! k + src ! c ! i * pm ! c ! k"
  by (simp add: point_eligibility_def bm_add_def bmm_outer_def ger_sum_nth)

subsection \<open>MSTDP\<close>

lemma present_mstdp_fields [simp]:
  "p_plus (present i self) = p_plus self"
  "p_minus (present i self) = p_minus self"
  "eligibility (present i self) = eligibility self"
  "MSTDP_stored_eligibility (present i self) = MSTDP_stored_eligibility self"
  by (simp_all add: present_def MSTDP_stored_eligibility_def get_w_def split: option.splits)

lemma mstdp_frame [simp]:
  "p_plus (LearningRule_update self) = p_plus self"
  "p_minus (LearningRule_update self) = p_minus self"
  "eligibility (LearningRule_update self) = eligibility self"
  "p_plus (set_w t self) = p_plus self"
  "p_minus (set_w t self) = p_minus self"
  "eligibility (set_w t self) = eligibility self"
  by (simp_all add: LearningRule_update_def Let_def set_w_def)

lemma MSTDP_step_weights:
  assumes "kw_reward kw = Some r"
  shows "\<exists>self'. MSTDP_connection_update kw self = Returned self'
    \<and> get_w self' = get_w (LearningRule_update
         (set_w (m_add (get_w self)
                   (m_scale (fst (nu self))
                      (reduction self (reward_mul_b r (MSTDP_stored_eligibility self))))) self))"
  using assms
  by (simp add: MSTDP_connection_update_def Let_def MSTDP_stored_eligibility_def
        LearningRule_update_conn_w get_w_def set_w_def)

lemma MSTDP_step_eligibility:
  assumes "MSTDP_connection_update kw self = Returned self'"
  shows "\<exists>pp pm. p_plus self' = Some pp \<and> p_minus self' = Some pm
    \<and> eligibility self' =
        Some (point_eligibility pp pm (nodes_s (source self)) (nodes_s (target self)))"
proof (cases "kw_reward kw")
  case None
  with assms show ?thesis
    by (simp add: MSTDP_connection_update_def Let_def)
next
  case (Some r)
  with assms have "self' = outcome_state (MSTDP_connection_update kw self)"
    by simp
  then show ?thesis
    using Some by (simp add: MSTDP_connection_update_def Let_def)
qed

lemma MSTDP_run_snoc:
  "MSTDP_run self (pre @ [i]) =
     (case MSTDP_run self pre of
        Raised e s \<Rightarrow> Raised e s
      | Returned s \<Rightarrow> MSTDP_connection_update (in_kwargs i) (present i s))"
  by (induction pre arbitrary: self) (auto split: outcome.splits)

text \<open>
  C2.  In a sequence of MSTDP dense update calls, the call of step \<open>k\<close> (the one after the
  calls on \<open>pre\<close>) changes the weights by \<open>nu[0] * reduce (reward * used)\<close> before the
  shared step, where \<open>used\<close> is the eligibility stored by the previous call: zeros on the
  first call, and otherwise the point eligibility
  \<open>outer p_plus post_spike + outer pre_spike p_minus\<close> that the previous call computed
  from its own spikes and the traces it left.  The spikes of step \<open>k\<close> itself, and so the
  eligibility recomputed within step \<open>k\<close>, have no influence on the weights after
  step \<open>k\<close>.  On well-shaped tensors the product with the reward and the sum with the
  weights are given entry by entry.
\<close>

theorem MSTDP_weight_update_uses_previous_eligibility:
  assumes run: "MSTDP_run self0 pre = Returned self"
    and reward: "kw_reward (in_kwargs i) = Some r"
  shows "\<exists>used self'.
      MSTDP_run self0 (pre @ [i]) = Returned self'
    \<and> get_w self' = get_w (LearningRule_update
         (set_w (m_add (get_w self) (m_scale (fst (nu self)) (reduction self (reward_mul_b r used))))
            self))
    \<and> used = (case eligibility self of
                None \<Rightarrow> replicate (batch_size (source self))
                          (zeros_m (shape0 (get_w self)) (shape1 (get_w self)))
              | Some t \<Rightarrow> t)
    \<and> (pre = [] \<and> eligibility self0 = None \<longrightarrow>
         used = replicate (batch_size (source self0))
                  (zeros_m (shape0 (get_w self0)) (shape1 (get_w self0))))
    \<and> (\<forall>pre' j. pre = pre' @ [j] \<longrightarrow>
         (\<exists>pp pm. p_plus self = Some pp \<and> p_minus self = Some pm
            \<and> used = point_eligibility pp pm (in_source_s j) (in_target_s j)
            \<and> (\<forall>c a k.
                 c < length pp \<and> c < length pm
                 \<and> c < length (in_source_s j) \<and> c < length (in_target_s j)
                 \<and> a < length (pp ! c) \<and> a < length (in_source_s j ! c)
                 \<and> k < length (in_target_s j ! c) \<and> k < length (pm ! c) \<longrightarrow>
                 used ! c ! a ! k = pp ! c ! a * in_target_s j ! c ! k
                                    + in_source_s j ! c ! a * pm ! c ! k)))
    \<and> (\<forall>src tgt.
         get_w (outcome_state
                  (MSTDP_run self0 (pre @ [i\<lparr>in_source_s := src, in_target_s := tgt\<rparr>])))
           = get_w self')
    \<and> (is_mat n m (get_w self) \<and> list_all (is_mat n m) used \<and> reward_shaped n m r
        \<and> is_mat n m (reduction self (reward_mul_b r used)) \<longrightarrow>
          (\<forall>a<n. \<forall>k<m.
             m_add (get_w self) (m_scale (fst (nu self)) (reduction self (reward_mul_b r used)))
               ! a ! k
             = get_w self ! a ! k + fst (nu self) * reduction self (reward_mul_b r used) ! a ! k)
        \<and> (\<forall>c<length used. \<forall>a<n. \<forall>k<m.
             reward_mul_b r used ! c ! a ! k = reward_at r a k * used ! c ! a ! k))"
proof -
  define used where "used = MSTDP_stored_eligibility self"
  from MSTDP_step_weights [OF reward, of "present i self"]
  obtain self' where step: "MSTDP_connection_update (in_kwargs i) (present i self) = Returned self'"
    and w': "get_w self' = get_w (LearningRule_update
         (set_w (m_add (get_w self) (m_scale (fst (nu self)) (reduction self (reward_mul_b r used))))
            (present i self)))"
    by (auto simp add: used_def)
  have 0: "used = (case eligibility self of
                None \<Rightarrow> replicate (batch_size (source self))
                          (zeros_m (shape0 (get_w self)) (shape1 (get_w self)))
              | Some t \<Rightarrow> t)"
    by (simp add: used_def MSTDP_stored_eligibility_def)
  have 1: "MSTDP_run self0 (pre @ [i]) = Returned self'"
    by (simp add: MSTDP_run_snoc run step)
  have 2: "get_w self' = get_w (LearningRule_update
         (set_w (m_add (get_w self) (m_scale (fst (nu self)) (reduction self (reward_mul_b r used))))
            self))"
    using w' by (simp only: present_frame)
  have 3: "used = replicate (batch_size (source self0))
                  (zeros_m (shape0 (get_w self0)) (shape1 (get_w self0)))"
    if "pre = []" "eligibility self0 = None"
    using that run by (simp add: used_def MSTDP_stored_eligibility_def)
  have 4: "\<exists>pp pm. p_plus self = Some pp \<and> p_minus self = Some pm
            \<and> used = point_eligibility pp pm (in_source_s j) (in_target_s j)
            \<and> (\<forall>c a k.
                 c < length pp \<and> c < length pm
                 \<and> c < length (in_source_s j) \<and> c < length (in_target_s j)
                 \<and> a < length (pp ! c) \<and> a < length (in_source_s j ! c)
                 \<and> k < length (in_target_s j ! c) \<and> k < length (pm ! c) \<longrightarrow>
                 used ! c ! a ! k = pp ! c ! a * in_target_s j ! c ! k
                                    + in_source_s j ! c ! a * pm ! c ! k)"
    if "pre = pre' @ [j]" for pre' j
  proof -
    from run that obtain s where "MSTDP_run self0 pre' = Returned s"
      and "MSTDP_connection_update (in_kwargs j) (present j s) = Returned self"
      by (auto simp add: MSTDP_run_snoc split: outcome.splits)
    from MSTDP_step_eligibility [OF this(2)] obtain pp pm where
      pp: "p_plus self = Some pp" "p_minus self = Some pm"
      and u: "used = point_eligibility pp pm (in_source_s j) (in_target_s j)"
      by (auto simp add: used_def MSTDP_stored_eligibility_def)
    have "used ! c ! a ! k = pp ! c ! a * in_target_s j ! c ! k
                                    + in_source_s j ! c ! a * pm ! c ! k"
      if "c < length pp \<and> c < length pm
                 \<and> c < length (in_source_s j) \<and> c < length (in_target_s j)
                 \<and> a < length (pp ! c) \<and> a < length (in_source_s j ! c)
                 \<and> k < length (in_target_s j ! c) \<and> k < length (pm ! c)" for c a k
      unfolding u using that by (simp add: point_eligibility_nth)
    with pp u show ?thesis by blast
  qed
  have 5: "get_w (outcome_state
                  (MSTDP_run self0 (pre @ [i\<lparr>in_source_s := src, in_target_s := tgt\<rparr>])))
           = get_w self'" for src tgt
  proof -
    let ?i = "i\<lparr>in_source_s := src, in_target_s := tgt\<rparr>"
    have "kw_reward (in_kwargs ?i) = Some r" using reward by simp
    from MSTDP_step_weights [OF this, of "present ?i self"]
    obtain s2 where step2: "MSTDP_connection_update (in_kwargs ?i) (present ?i self) = Returned s2"
      and w2: "get_w s2 = get_w (LearningRule_update
         (set_w (m_add (get_w self) (m_scale (fst (nu self)) (reduction self (reward_mul_b r used))))
            (present ?i self)))"
      unfolding used_def by auto
    have "MSTDP_run self0 (pre @ [?i]) = Returned s2"
      by (simp only: MSTDP_run_snoc run outcome.case step2)
    then show ?thesis
      using w2 2 by (simp only: outcome_state.simps present_frame)
  qed
  have 6: "m_add (get_w self) (m_scale (fst (nu self)) (reduction self (reward_mul_b r used)))
               ! a ! k
             = get_w self ! a ! k + fst (nu self) * reduction self (reward_mul_b r used) ! a ! k"
    if "is_mat n m (get_w self)" "is_mat n m (reduction self (reward_mul_b r used))"
      "a < n" "k < m" for a k
    using that by (simp add: m_add_nth [of n m] m_scale_nth [of n m] is_mat_m_scale)
  have 7: "reward_mul_b r used ! c ! a ! k = reward_at r a k * used ! c ! a ! k"
    if "list_all (is_mat n m) used" "reward_shaped n m r" "c < length used" "a < n" "k < m"
    for c a k
    using that by (simp add: reward_mul_b_nth [of n m])
  show ?thesis
    apply (rule exI [of _ used])
    apply (rule exI [of _ self'])
    apply (intro conjI)
    subgoal by (rule 1)
    subgoal by (rule 2)
    subgoal by (rule 0)
    subgoal using 3 by blast
    subgoal using 4 by blast
    subgoal using 5 by blast
    subgoal using 6 7 by blast
    done
qed

lemmas run_defs =
  MSTDP_connection_update_def MSTDPET_connection_update_def Rmax_connection_update_def
  LearningRule_update_def present_def point_eligibility_def bv_scale_def bv_add_def bm_add_def
  m_div_def reward_mul_b_def shape0_def shape1_def rmax_increment_def
  example_source1_def example_target1_def example_mstdp_def example_mstdpet_def
  example_rmax_def example_kwargs_def example_step_def example_step1_def
  example_mstdp_running_def example_mstdpet_running_def example_rmax_running_def
  example_kwargs_tensor_def example_step_tensor_def example_step1_tensor_def
  Let_def numeral_2_eq_2

theorem MSTDP_weight_update_uses_previous_eligibility_witness:
  "(\<exists>self. MSTDP_run example_mstdp [example_step] = Returned self)
   \<and> kw_reward (in_kwargs example_step) = Some (Scalar 2)
   \<and> eligibility (outcome_state (MSTDP_run example_mstdp [example_step]))
       = Some [[[1], [0]], [[0], [0]]]
   \<and> get_w (outcome_state (MSTDP_run example_mstdp [example_step])) = [[0], [0]]
   \<and> get_w (outcome_state (MSTDP_run example_mstdp ([example_step] @ [example_step])))
       = [[1], [0]]
   \<and> MSTDP_run example_mstdp_running [] = Returned example_mstdp_running
   \<and> kw_reward (in_kwargs example_step_tensor) = Some (PerSynapse [[2], [7]])
   \<and> reward_mul_b (PerSynapse [[2], [7]]) [[[1], [1]], [[0], [1]]] ! 0 ! 1 ! 0 = 7 * 1
   \<and> get_w (outcome_state (MSTDP_run example_mstdp_running ([] @ [example_step_tensor])))
       = [[4], [23]]
   \<and> get_w (outcome_state (MSTDP_run example_mstdp_running ([] @ [example_step_tensor])))
        ! 1 ! 0 = 2 + 3 * ((7 * 1 + 7 * 1) / 2)"
proof -
  define s1 where "s1 = outcome_state (MSTDP_run example_mstdp [example_step])"
  have run: "MSTDP_run example_mstdp [example_step] = Returned s1"
    by (simp add: s1_def run_defs example_defs tensor_defs)
  have reward: "kw_reward (in_kwargs example_step) = Some (Scalar 2)"
    by (simp add: example_step_def example_kwargs_def)
  have el: "eligibility s1 = Some [[[1], [0]], [[0], [0]]]"
    by (simp add: s1_def run_defs example_defs tensor_defs)
  have w1: "get_w s1 = [[0], [0]]"
    by (simp add: s1_def run_defs example_defs tensor_defs)
  have s1: "nu s1 = (1, 1)" "reduction s1 = torch_mean" "weight_decay s1 = 0"
    "conn_wmin (connection s1) = NegInf" "conn_wmax (connection s1) = PosInf"
    by (simp_all add: s1_def run_defs example_defs tensor_defs)
  have w2:
    "get_w (outcome_state (MSTDP_run example_mstdp ([example_step] @ [example_step])))
       = [[1], [0]]"
    using MSTDP_weight_update_uses_previous_eligibility [OF run reward, of 2 1]
  proof (elim exE conjE)
    fix used self'
    assume a: "MSTDP_run example_mstdp ([example_step] @ [example_step]) = Returned self'"
      and b: "get_w self' = get_w (LearningRule_update
         (set_w (m_add (get_w s1) (m_scale (fst (nu s1))
             (reduction s1 (reward_mul_b (Scalar 2) used)))) s1))"
      and c: "\<forall>pre' j. [example_step] = pre' @ [j] \<longrightarrow>
         (\<exists>pp pm. p_plus s1 = Some pp \<and> p_minus s1 = Some pm
            \<and> used = point_eligibility pp pm (in_source_s j) (in_target_s j)
            \<and> (\<forall>c a k.
                 c < length pp \<and> c < length pm
                 \<and> c < length (in_source_s j) \<and> c < length (in_target_s j)
                 \<and> a < length (pp ! c) \<and> a < length (in_source_s j ! c)
                 \<and> k < length (in_target_s j ! c) \<and> k < length (pm ! c) \<longrightarrow>
                 used ! c ! a ! k = pp ! c ! a * in_target_s j ! c ! k
                                    + in_source_s j ! c ! a * pm ! c ! k))"
    from c [rule_format, of "[]" example_step]
    obtain pp pm where "p_plus s1 = Some pp" "p_minus s1 = Some pm"
      and "used = point_eligibility pp pm (in_source_s example_step) (in_target_s example_step)"
      by auto
    then have used: "used = [[[1], [0]], [[0], [0]]]"
      by (auto simp add: s1_def run_defs example_defs tensor_defs)
    have "get_w self' = [[1], [0]]"
      unfolding b used w1
      by (simp add: LearningRule_update_w s1 reward_mul_b_def v_scale_def v_add_def m_scale_def
            m_add_def torch_mean_def)
    with a show ?thesis
      by (simp only: outcome_state.simps)
  qed
  have first: "\<exists>self. MSTDP_run example_mstdp [example_step] = Returned self"
    using run by (rule exI)
  let ?self = example_mstdp_running
  let ?r = "PerSynapse [[2], [7]]"
  let ?E = "[[[1], [1]], [[0], [1 :: real]]]"
  have run0: "MSTDP_run ?self [] = Returned ?self"
    by simp
  have reward0: "kw_reward (in_kwargs example_step_tensor) = Some ?r"
    by (simp add: example_step_tensor_def example_kwargs_tensor_def)
  have q: "get_w ?self = [[1], [2]]" "nu ?self = (3, 5)" "weight_decay ?self = 0"
    "conn_wmin (connection ?self) = NegInf" "conn_wmax (connection ?self) = PosInf"
    "reduction ?self = torch_mean" "eligibility ?self = Some ?E"
    by (simp_all add: get_w_def example_mstdp_running_def)
  have q_shapes: "is_mat 2 1 (get_w ?self)" "list_all (is_mat 2 1) ?E" "reward_shaped 2 1 ?r"
    unfolding q by (simp_all add: is_mat_def)
  have w0:
    "reward_mul_b ?r ?E ! 0 ! 1 ! 0 = 7 * 1
     \<and> get_w (outcome_state (MSTDP_run ?self ([] @ [example_step_tensor]))) = [[4], [23]]
     \<and> get_w (outcome_state (MSTDP_run ?self ([] @ [example_step_tensor]))) ! 1 ! 0
          = 2 + 3 * ((7 * 1 + 7 * 1) / 2)"
    using MSTDP_weight_update_uses_previous_eligibility [OF run0 reward0, of 2 1]
  proof (elim exE conjE)
    fix used self'
    assume a: "MSTDP_run ?self ([] @ [example_step_tensor]) = Returned self'"
      and b: "get_w self' = get_w (LearningRule_update
         (set_w (m_add (get_w ?self) (m_scale (fst (nu ?self))
             (reduction ?self (reward_mul_b ?r used)))) ?self))"
      and u: "used = (case eligibility ?self of
                None \<Rightarrow> replicate (batch_size (source ?self))
                          (zeros_m (shape0 (get_w ?self)) (shape1 (get_w ?self)))
              | Some t \<Rightarrow> t)"
      and n: "is_mat 2 1 (get_w ?self) \<and> list_all (is_mat 2 1) used \<and> reward_shaped 2 1 ?r
        \<and> is_mat 2 1 (reduction ?self (reward_mul_b ?r used)) \<longrightarrow>
          (\<forall>a<2. \<forall>k<1.
             m_add (get_w ?self) (m_scale (fst (nu ?self)) (reduction ?self (reward_mul_b ?r used)))
               ! a ! k
             = get_w ?self ! a ! k + fst (nu ?self) * reduction ?self (reward_mul_b ?r used) ! a ! k)
        \<and> (\<forall>c<length used. \<forall>a<2. \<forall>k<1.
             reward_mul_b ?r used ! c ! a ! k = reward_at ?r a k * used ! c ! a ! k)"
    have used: "used = ?E"
      unfolding u q by simp
    let ?X = "reward_mul_b ?r ?E"
    let ?W = "m_add (get_w ?self) (m_scale (fst (nu ?self)) (reduction ?self ?X))"
    have X: "?X = [[[2], [7]], [[0], [7]]]"
      by (simp add: reward_mul_b_def m_mul_def)
    have red: "torch_mean ?X = [[1], [7]]"
      unfolding X by (simp add: tensor_defs)
    have red_shape: "is_mat 2 1 (reduction ?self ?X)"
      unfolding q red by (simp add: is_mat_def)
    from n [unfolded used] q_shapes red_shape
    have W_entries: "\<forall>a<2. \<forall>k<1.
             ?W ! a ! k = get_w ?self ! a ! k + fst (nu ?self) * reduction ?self ?X ! a ! k"
      and X_entries: "\<forall>c<length ?E. \<forall>a<2. \<forall>k<1.
             ?X ! c ! a ! k = reward_at ?r a k * ?E ! c ! a ! k"
      by simp_all
    have x: "?X ! 0 ! 1 ! 0 = 7 * 1"
      using X_entries [rule_format, of 0 1 0] by simp
    have W10: "?W ! 1 ! 0 = 2 + 3 * ((7 * 1 + 7 * 1) / 2)"
      using W_entries [rule_format, of 1 0] unfolding q red by simp
    have W: "?W = [[4], [23]]"
      unfolding q red by (simp add: tensor_defs)
    have same: "get_w self' = ?W"
      unfolding b used by (simp add: LearningRule_update_w Let_def q m_scale_one)
    have st: "outcome_state (MSTDP_run ?self ([] @ [example_step_tensor])) = self'"
      unfolding a by simp
    show ?thesis
      unfolding st same using x W W10 by simp
  qed
  show ?thesis
    using first reward el [unfolded s1_def] w1 [unfolded s1_def] w2 run0 reward0 w0 by blast
qed


subsection \<open>MSTDPET\<close>

lemma present_mstdpet_fields [simp]:
  "et_p_plus (present i self) = et_p_plus self"
  "et_p_minus (present i self) = et_p_minus self"
  "et_eligibility (present i self) = et_eligibility self"
  "eligibility_trace (present i self) = eligibility_trace self"
  "tc_e_trace (present i self) = tc_e_trace self"
  "MSTDPET_stored_eligibility (present i self) = MSTDPET_stored_eligibility self"
  "MSTDPET_stored_trace (present i self) = MSTDPET_stored_trace self"
  by (simp_all add: present_def MSTDPET_stored_eligibility_def MSTDPET_stored_trace_def get_w_def
        split: option.splits)

lemma mstdpet_frame [simp]:
  "et_p_plus (LearningRule_update self) = et_p_plus self"
  "et_p_minus (LearningRule_update self) = et_p_minus self"
  "et_eligibility (LearningRule_update self) = et_eligibility self"
  "eligibility_trace (LearningRule_update self) = eligibility_trace self"
  "et_p_plus (set_w t self) = et_p_plus self"
  "et_p_minus (set_w t self) = et_p_minus self"
  "et_eligibility (set_w t self) = et_eligibility self"
  "eligibility_trace (set_w t self) = eligibility_trace self"
  by (simp_all add: LearningRule_update_def Let_def set_w_def)

lemma MSTDPET_step:
  assumes "kw_reward kw = Some r"
  shows "\<exists>self'. MSTDPET_connection_update kw self = Returned self'
    \<and> eligibility_trace self' =
        Some (m_add (m_scale (exp (- conn_dt (connection self) / tc_e_trace self))
                       (MSTDPET_stored_trace self))
                (m_div (MSTDPET_stored_eligibility self) (tc_e_trace self)))
    \<and> get_w self' = get_w (LearningRule_update
         (set_w (m_add (get_w self)
                   (reward_mul (reward_scale (fst (nu self) * conn_dt (connection self)) r)
                      (m_add (m_scale (exp (- conn_dt (connection self) / tc_e_trace self))
                                (MSTDPET_stored_trace self))
                         (m_div (MSTDPET_stored_eligibility self) (tc_e_trace self))))) self))"
  using assms
  by (simp add: MSTDPET_connection_update_def Let_def MSTDPET_stored_eligibility_def
        MSTDPET_stored_trace_def LearningRule_update_conn_w get_w_def set_w_def)

lemma MSTDPET_step_eligibility:
  assumes "MSTDPET_connection_update kw self = Returned self'"
  shows "\<exists>pp pm. et_p_plus self' = Some pp \<and> et_p_minus self' = Some pm
    \<and> et_eligibility self' =
        Some (m_add (ger pp (concat (nodes_s (target self))))
                (ger (concat (nodes_s (source self))) pm))"
proof (cases "kw_reward kw")
  case None
  with assms show ?thesis
    by (simp add: MSTDPET_connection_update_def Let_def)
next
  case (Some r)
  with assms have "self' = outcome_state (MSTDPET_connection_update kw self)"
    by simp
  then show ?thesis
    using Some by (simp add: MSTDPET_connection_update_def Let_def)
qed

lemma MSTDPET_run_snoc:
  "MSTDPET_run self (pre @ [i]) =
     (case MSTDPET_run self pre of
        Raised e s \<Rightarrow> Raised e s
      | Returned s \<Rightarrow> MSTDPET_connection_update (in_kwargs i) (present i s))"
  by (induction pre arbitrary: self) (auto split: outcome.splits)

text \<open>
  C6.  In a sequence of MSTDPET dense update calls with a non-zero time constant
  \<open>tc_e_trace\<close>, every call first multiplies the stored eligibility trace \<open>prev\<close> (zeros
  where none is stored) by \<open>exp (- dt / tc_e_trace)\<close> and adds \<open>used / tc_e_trace\<close>, where
  \<open>used\<close> is the point eligibility stored by the previous call (zeros on the first call,
  otherwise \<open>outer p_plus post_spike + outer pre_spike p_minus\<close> as the previous call
  computed it from its spikes and the traces it left); the weights of the same call
  change by \<open>nu[0] * dt * reward * trace'\<close> with the trace just updated, before the shared
  step.  On well-shaped tensors the trace and these weights are given entry by entry.
\<close>

theorem MSTDPET_trace_filters_previous_eligibility:
  assumes run: "MSTDPET_run self0 pre = Returned self"
    and reward: "kw_reward (in_kwargs i) = Some r"
    and tc: "tc_e_trace self \<noteq> 0"
  shows "\<exists>used prev trace' self'.
      MSTDPET_run self0 (pre @ [i]) = Returned self'
    \<and> prev = (case eligibility_trace self of
                None \<Rightarrow> zeros_m (shape0 (get_w self)) (shape1 (get_w self)) | Some t \<Rightarrow> t)
    \<and> used = (case et_eligibility self of
                None \<Rightarrow> zeros_m (shape0 (get_w self)) (shape1 (get_w self)) | Some t \<Rightarrow> t)
    \<and> trace' = m_add (m_scale (exp (- conn_dt (connection self) / tc_e_trace self)) prev)
                 (m_div used (tc_e_trace self))
    \<and> eligibility_trace self' = Some trace'
    \<and> get_w self' = get_w (LearningRule_update
         (set_w (m_add (get_w self)
                   (reward_mul (reward_scale (fst (nu self) * conn_dt (connection self)) r) trace'))
            self))
    \<and> (pre = [] \<and> et_eligibility self0 = None \<longrightarrow>
         used = zeros_m (shape0 (get_w self0)) (shape1 (get_w self0)))
    \<and> (\<forall>pre' j. pre = pre' @ [j] \<longrightarrow>
         (\<exists>pp pm. et_p_plus self = Some pp \<and> et_p_minus self = Some pm
            \<and> used = m_add (ger pp (concat (in_target_s j))) (ger (concat (in_source_s j)) pm)
            \<and> (\<forall>a<length pp. \<forall>k<length pm.
                 length (concat (in_source_s j)) = length pp
                 \<and> length (concat (in_target_s j)) = length pm \<longrightarrow>
                 used ! a ! k = pp ! a * concat (in_target_s j) ! k
                                + concat (in_source_s j) ! a * pm ! k)))
    \<and> (is_mat n m (get_w self) \<and> is_mat n m prev \<and> is_mat n m used \<and> reward_shaped n m r
        \<longrightarrow> (\<forall>a<n. \<forall>k<m.
          trace' ! a ! k = exp (- conn_dt (connection self) / tc_e_trace self) * prev ! a ! k
                           + used ! a ! k / tc_e_trace self
          \<and> m_add (get_w self)
               (reward_mul (reward_scale (fst (nu self) * conn_dt (connection self)) r) trace')
               ! a ! k
             = get_w self ! a ! k
               + fst (nu self) * conn_dt (connection self) * reward_at r a k * trace' ! a ! k))"
proof -
  define used where "used = MSTDPET_stored_eligibility self"
  define prev where "prev = MSTDPET_stored_trace self"
  define trace' where
    "trace' = m_add (m_scale (exp (- conn_dt (connection self) / tc_e_trace self)) prev)
                 (m_div used (tc_e_trace self))"
  from MSTDPET_step [OF reward, of "present i self"]
  obtain self' where step: "MSTDPET_connection_update (in_kwargs i) (present i self) = Returned self'"
    and tr: "eligibility_trace self' = Some trace'"
    and w': "get_w self' = get_w (LearningRule_update
         (set_w (m_add (get_w self)
                   (reward_mul (reward_scale (fst (nu self) * conn_dt (connection self)) r) trace'))
            (present i self)))"
    by (auto simp add: used_def prev_def trace'_def)
  have 1: "MSTDPET_run self0 (pre @ [i]) = Returned self'"
    by (simp add: MSTDPET_run_snoc run step)
  have 2: "get_w self' = get_w (LearningRule_update
         (set_w (m_add (get_w self)
                   (reward_mul (reward_scale (fst (nu self) * conn_dt (connection self)) r) trace'))
            self))"
    using w' by (simp only: present_frame)
  have 3: "used = zeros_m (shape0 (get_w self0)) (shape1 (get_w self0))"
    if "pre = []" "et_eligibility self0 = None"
    using that run by (simp add: used_def MSTDPET_stored_eligibility_def)
  have 4: "\<exists>pp pm. et_p_plus self = Some pp \<and> et_p_minus self = Some pm
            \<and> used = m_add (ger pp (concat (in_target_s j))) (ger (concat (in_source_s j)) pm)
            \<and> (\<forall>a<length pp. \<forall>k<length pm.
                 length (concat (in_source_s j)) = length pp
                 \<and> length (concat (in_target_s j)) = length pm \<longrightarrow>
                 used ! a ! k = pp ! a * concat (in_target_s j) ! k
                                + concat (in_source_s j) ! a * pm ! k)"
    if "pre = pre' @ [j]" for pre' j
  proof -
    from run that obtain s where "MSTDPET_run self0 pre' = Returned s"
      and "MSTDPET_connection_update (in_kwargs j) (present j s) = Returned self"
      by (auto simp add: MSTDPET_run_snoc split: outcome.splits)
    from MSTDPET_step_eligibility [OF this(2)] obtain pp pm where
      pp: "et_p_plus self = Some pp" "et_p_minus self = Some pm"
      and u: "used = m_add (ger pp (concat (in_target_s j))) (ger (concat (in_source_s j)) pm)"
      by (auto simp add: used_def MSTDPET_stored_eligibility_def)
    have "used ! a ! k = pp ! a * concat (in_target_s j) ! k
                                + concat (in_source_s j) ! a * pm ! k"
      if "a < length pp" "k < length pm" "length (concat (in_source_s j)) = length pp"
        "length (concat (in_target_s j)) = length pm" for a k
      unfolding u using that by (simp add: ger_sum_nth)
    with pp u show ?thesis by blast
  qed
  have 0: "prev = (case eligibility_trace self of
                None \<Rightarrow> zeros_m (shape0 (get_w self)) (shape1 (get_w self)) | Some t \<Rightarrow> t)"
    "used = (case et_eligibility self of
                None \<Rightarrow> zeros_m (shape0 (get_w self)) (shape1 (get_w self)) | Some t \<Rightarrow> t)"
    by (simp_all add: prev_def used_def MSTDPET_stored_trace_def MSTDPET_stored_eligibility_def)
  have 5: "trace' ! a ! k = exp (- conn_dt (connection self) / tc_e_trace self) * prev ! a ! k
                           + used ! a ! k / tc_e_trace self
          \<and> m_add (get_w self)
               (reward_mul (reward_scale (fst (nu self) * conn_dt (connection self)) r) trace')
               ! a ! k
             = get_w self ! a ! k
               + fst (nu self) * conn_dt (connection self) * reward_at r a k * trace' ! a ! k"
    if w: "is_mat n m (get_w self)" and p: "is_mat n m prev" and u: "is_mat n m used"
      and r: "reward_shaped n m r" and a: "a < n" and k: "k < m" for a k
  proof -
    have t: "is_mat n m trace'"
      unfolding trace'_def using p u by (simp add: is_mat_m_add is_mat_m_scale is_mat_m_div)
    have "is_mat n m
        (reward_mul (reward_scale (fst (nu self) * conn_dt (connection self)) r) trace')"
      using r t by (simp add: is_mat_reward_mul reward_scale_shaped)
    then have "m_add (get_w self)
               (reward_mul (reward_scale (fst (nu self) * conn_dt (connection self)) r) trace')
               ! a ! k
             = get_w self ! a ! k
               + fst (nu self) * conn_dt (connection self) * reward_at r a k * trace' ! a ! k"
      using w t r a k
      by (simp add: m_add_nth [of n m] reward_mul_nth [of n m] reward_scale_shaped
            reward_scale_at [of n m])
    moreover have "trace' ! a ! k
        = exp (- conn_dt (connection self) / tc_e_trace self) * prev ! a ! k
          + used ! a ! k / tc_e_trace self"
      unfolding trace'_def using p u a k
      by (simp add: m_add_nth [of n m] m_scale_nth [of n m] m_div_nth [of n m]
            is_mat_m_scale is_mat_m_div)
    ultimately show ?thesis by simp
  qed
  show ?thesis
    apply (rule exI [of _ used])
    apply (rule exI [of _ prev])
    apply (rule exI [of _ trace'])
    apply (rule exI [of _ self'])
    apply (intro conjI)
    subgoal by (rule 1)
    subgoal by (rule 0(1))
    subgoal by (rule 0(2))
    subgoal by (rule trace'_def)
    subgoal by (rule tr)
    subgoal by (rule 2)
    subgoal using 3 by blast
    subgoal using 4 by blast
    subgoal using 5 by blast
    done
qed

theorem MSTDPET_trace_filters_previous_eligibility_witness:
  "(\<exists>self. MSTDPET_run example_mstdpet [example_step1] = Returned self)
   \<and> kw_reward (in_kwargs example_step1) = Some (Scalar 2)
   \<and> tc_e_trace (outcome_state (MSTDPET_run example_mstdpet [example_step1])) = 25
   \<and> et_eligibility (outcome_state (MSTDPET_run example_mstdpet [example_step1]))
       = Some [[1], [0]]
   \<and> eligibility_trace
        (outcome_state (MSTDPET_run example_mstdpet ([example_step1] @ [example_step1])))
       = Some [[1/25], [0]]
   \<and> get_w (outcome_state (MSTDPET_run example_mstdpet ([example_step1] @ [example_step1])))
       = [[2/25], [0]]
   \<and> MSTDPET_run example_mstdpet_running [] = Returned example_mstdpet_running
   \<and> kw_reward (in_kwargs example_step1_tensor) = Some (PerSynapse [[2], [7]])
   \<and> tc_e_trace example_mstdpet_running = 25
   \<and> eligibility_trace
         (outcome_state (MSTDPET_run example_mstdpet_running ([] @ [example_step1_tensor])))
       = Some [[exp (- 2 / 25) * 1 + 3 / 25], [exp (- 2 / 25) * 2 + 5 / 25]]
   \<and> (\<exists>t. eligibility_trace
             (outcome_state (MSTDPET_run example_mstdpet_running ([] @ [example_step1_tensor])))
            = Some t
          \<and> t ! 0 ! 0 = exp (- 2 / 25) * 1 + 3 / 25
          \<and> t ! 1 ! 0 = exp (- 2 / 25) * 2 + 5 / 25)
   \<and> get_w (outcome_state (MSTDPET_run example_mstdpet_running ([] @ [example_step1_tensor])))
       = [[1 + 3 * 2 * 2 * (exp (- 2 / 25) * 1 + 3 / 25)],
          [2 + 3 * 2 * 7 * (exp (- 2 / 25) * 2 + 5 / 25)]]
   \<and> get_w (outcome_state (MSTDPET_run example_mstdpet_running ([] @ [example_step1_tensor])))
        ! 0 ! 0 = 1 + 3 * 2 * 2 * (exp (- 2 / 25) * 1 + 3 / 25)
   \<and> get_w (outcome_state (MSTDPET_run example_mstdpet_running ([] @ [example_step1_tensor])))
        ! 1 ! 0 = 2 + 3 * 2 * 7 * (exp (- 2 / 25) * 2 + 5 / 25)"
proof -
  define s1 where "s1 = outcome_state (MSTDPET_run example_mstdpet [example_step1])"
  have run: "MSTDPET_run example_mstdpet [example_step1] = Returned s1"
    by (simp add: s1_def run_defs tensor_defs)
  have reward: "kw_reward (in_kwargs example_step1) = Some (Scalar 2)"
    by (simp add: example_step1_def example_kwargs_def)
  have el: "et_eligibility s1 = Some [[1], [0]]"
    and tr1: "eligibility_trace s1 = Some [[0], [0]]"
    by (simp_all add: s1_def run_defs tensor_defs)
  have s1: "get_w s1 = [[0], [0]]" "nu s1 = (1, 1)" "weight_decay s1 = 0"
    "conn_wmin (connection s1) = NegInf" "conn_wmax (connection s1) = PosInf"
    "conn_dt (connection s1) = 1" "tc_e_trace s1 = 25"
    by (simp_all add: s1_def run_defs tensor_defs)
  then have tc: "tc_e_trace s1 \<noteq> 0"
    by simp
  have w2:
    "eligibility_trace
        (outcome_state (MSTDPET_run example_mstdpet ([example_step1] @ [example_step1])))
       = Some [[1/25], [0]]
     \<and> get_w (outcome_state (MSTDPET_run example_mstdpet ([example_step1] @ [example_step1])))
       = [[2/25], [0]]"
    using MSTDPET_trace_filters_previous_eligibility [OF run reward tc, of 2 1]
  proof (elim exE conjE)
    fix used prev trace' self'
    assume a: "MSTDPET_run example_mstdpet ([example_step1] @ [example_step1]) = Returned self'"
      and p: "prev = (case eligibility_trace s1 of
                None \<Rightarrow> zeros_m (shape0 (get_w s1)) (shape1 (get_w s1)) | Some t \<Rightarrow> t)"
      and t: "trace' = m_add (m_scale (exp (- conn_dt (connection s1) / tc_e_trace s1)) prev)
                 (m_div used (tc_e_trace s1))"
      and e: "eligibility_trace self' = Some trace'"
      and b: "get_w self' = get_w (LearningRule_update
         (set_w (m_add (get_w s1)
                   (reward_mul (reward_scale (fst (nu s1) * conn_dt (connection s1)) (Scalar 2))
                      trace')) s1))"
      and c: "\<forall>pre' j. [example_step1] = pre' @ [j] \<longrightarrow>
         (\<exists>pp pm. et_p_plus s1 = Some pp \<and> et_p_minus s1 = Some pm
            \<and> used = m_add (ger pp (concat (in_target_s j))) (ger (concat (in_source_s j)) pm)
            \<and> (\<forall>a<length pp. \<forall>k<length pm.
                 length (concat (in_source_s j)) = length pp
                 \<and> length (concat (in_target_s j)) = length pm \<longrightarrow>
                 used ! a ! k = pp ! a * concat (in_target_s j) ! k
                                + concat (in_source_s j) ! a * pm ! k))"
    from c [rule_format, of "[]" example_step1]
    obtain pp pm where "et_p_plus s1 = Some pp" "et_p_minus s1 = Some pm"
      and "used = m_add (ger pp (concat (in_target_s example_step1)))
                    (ger (concat (in_source_s example_step1)) pm)"
      by auto
    then have used: "used = [[1], [0]]"
      by (auto simp add: s1_def run_defs tensor_defs)
    have trace': "trace' = [[1/25], [0]]"
      unfolding t p tr1 used s1
      by (simp add: m_div_def v_scale_def v_add_def m_scale_def m_add_def)
    have "get_w self' = [[2/25], [0]]"
      unfolding b trace'
      by (simp add: LearningRule_update_w s1 v_scale_def v_add_def m_scale_def m_add_def)
    with a e trace' show ?thesis
      by (simp only: outcome_state.simps simp_thms)
  qed
  have first: "\<exists>self. MSTDPET_run example_mstdpet [example_step1] = Returned self"
    using run by (rule exI)
  let ?self = example_mstdpet_running
  let ?r = "PerSynapse [[2], [7]]"
  have run0: "MSTDPET_run ?self [] = Returned ?self"
    by simp
  have reward0: "kw_reward (in_kwargs example_step1_tensor) = Some ?r"
    by (simp add: example_step1_tensor_def example_kwargs_tensor_def)
  have q: "get_w ?self = [[1], [2]]" "nu ?self = (3, 5)" "weight_decay ?self = 0"
    "conn_wmin (connection ?self) = NegInf" "conn_wmax (connection ?self) = PosInf"
    "conn_dt (connection ?self) = 2" "tc_e_trace ?self = 25"
    "et_eligibility ?self = Some [[3], [5]]" "eligibility_trace ?self = Some [[1], [2]]"
    by (simp_all add: get_w_def example_mstdpet_running_def)
  then have tc0: "tc_e_trace ?self \<noteq> 0"
    by simp
  have q_shapes: "is_mat 2 1 (get_w ?self)" "is_mat 2 1 [[1], [2 :: real]]"
    "is_mat 2 1 [[3], [5 :: real]]" "reward_shaped 2 1 ?r"
    unfolding q by (simp_all add: is_mat_def)
  have w0:
    "eligibility_trace (outcome_state (MSTDPET_run ?self ([] @ [example_step1_tensor])))
       = Some [[exp (- 2 / 25) * 1 + 3 / 25], [exp (- 2 / 25) * 2 + 5 / 25]]
     \<and> (\<exists>t. eligibility_trace
             (outcome_state (MSTDPET_run ?self ([] @ [example_step1_tensor]))) = Some t
          \<and> t ! 0 ! 0 = exp (- 2 / 25) * 1 + 3 / 25
          \<and> t ! 1 ! 0 = exp (- 2 / 25) * 2 + 5 / 25)
     \<and> get_w (outcome_state (MSTDPET_run ?self ([] @ [example_step1_tensor])))
           = [[1 + 3 * 2 * 2 * (exp (- 2 / 25) * 1 + 3 / 25)],
              [2 + 3 * 2 * 7 * (exp (- 2 / 25) * 2 + 5 / 25)]]
     \<and> get_w (outcome_state (MSTDPET_run ?self ([] @ [example_step1_tensor]))) ! 0 ! 0
           = 1 + 3 * 2 * 2 * (exp (- 2 / 25) * 1 + 3 / 25)
     \<and> get_w (outcome_state (MSTDPET_run ?self ([] @ [example_step1_tensor]))) ! 1 ! 0
           = 2 + 3 * 2 * 7 * (exp (- 2 / 25) * 2 + 5 / 25)"
    using MSTDPET_trace_filters_previous_eligibility [OF run0 reward0 tc0, of 2 1]
  proof (elim exE conjE)
    fix used0 prev0 trace0 self0
    assume a0: "MSTDPET_run ?self ([] @ [example_step1_tensor]) = Returned self0"
      and p0: "prev0 = (case eligibility_trace ?self of
                None \<Rightarrow> zeros_m (shape0 (get_w ?self)) (shape1 (get_w ?self)) | Some t \<Rightarrow> t)"
      and u0: "used0 = (case et_eligibility ?self of
                None \<Rightarrow> zeros_m (shape0 (get_w ?self)) (shape1 (get_w ?self)) | Some t \<Rightarrow> t)"
      and t0: "trace0 = m_add
                 (m_scale (exp (- conn_dt (connection ?self) / tc_e_trace ?self)) prev0)
                 (m_div used0 (tc_e_trace ?self))"
      and e0: "eligibility_trace self0 = Some trace0"
      and b0: "get_w self0 = get_w (LearningRule_update
         (set_w (m_add (get_w ?self)
                   (reward_mul (reward_scale (fst (nu ?self) * conn_dt (connection ?self)) ?r)
                      trace0)) ?self))"
      and n0: "is_mat 2 1 (get_w ?self) \<and> is_mat 2 1 prev0 \<and> is_mat 2 1 used0
        \<and> reward_shaped 2 1 ?r
        \<longrightarrow> (\<forall>a<2. \<forall>k<1.
          trace0 ! a ! k = exp (- conn_dt (connection ?self) / tc_e_trace ?self) * prev0 ! a ! k
                           + used0 ! a ! k / tc_e_trace ?self
          \<and> m_add (get_w ?self)
               (reward_mul (reward_scale (fst (nu ?self) * conn_dt (connection ?self)) ?r) trace0)
               ! a ! k
             = get_w ?self ! a ! k
               + fst (nu ?self) * conn_dt (connection ?self) * reward_at ?r a k * trace0 ! a ! k)"
    have pu: "prev0 = [[1], [2]]" "used0 = [[3], [5]]"
      unfolding p0 u0 q by simp_all
    let ?W = "m_add (get_w ?self)
               (reward_mul (reward_scale (fst (nu ?self) * conn_dt (connection ?self)) ?r) trace0)"
    have entries: "\<forall>a<2. \<forall>k<1.
          trace0 ! a ! k = exp (- conn_dt (connection ?self) / tc_e_trace ?self) * prev0 ! a ! k
                           + used0 ! a ! k / tc_e_trace ?self
          \<and> ?W ! a ! k
             = get_w ?self ! a ! k
               + fst (nu ?self) * conn_dt (connection ?self) * reward_at ?r a k * trace0 ! a ! k"
      using n0 q_shapes unfolding pu by (rule_tac mp) simp_all
    have e00: "trace0 ! 0 ! 0 = exp (- 2 / 25) * 1 + 3 / 25
        \<and> ?W ! 0 ! 0 = 1 + 3 * 2 * 2 * (exp (- 2 / 25) * 1 + 3 / 25)"
      using entries [rule_format, of 0 0] unfolding pu q by simp
    have e10: "trace0 ! 1 ! 0 = exp (- 2 / 25) * 2 + 5 / 25
        \<and> ?W ! 1 ! 0 = 2 + 3 * 2 * 7 * (exp (- 2 / 25) * 2 + 5 / 25)"
      using entries [rule_format, of 1 0] unfolding pu q by simp
    have same: "get_w self0 = ?W"
      unfolding b0 by (simp add: LearningRule_update_w Let_def q m_scale_one)
    have trace0: "trace0 = [[exp (- 2 / 25) * 1 + 3 / 25], [exp (- 2 / 25) * 2 + 5 / 25]]"
      unfolding t0 pu q by (simp add: tensor_defs m_div_def)
    have W: "?W = [[1 + 3 * 2 * 2 * (exp (- 2 / 25) * 1 + 3 / 25)],
                   [2 + 3 * 2 * 7 * (exp (- 2 / 25) * 2 + 5 / 25)]]"
      unfolding trace0 q by (simp add: tensor_defs m_mul_def algebra_simps)
    have st: "outcome_state (MSTDPET_run ?self ([] @ [example_step1_tensor])) = self0"
      unfolding a0 by simp
    show ?thesis
      unfolding st same using e0 e00 e10 trace0 W by blast
  qed
  show ?thesis
    using first reward el [unfolded s1_def] s1(7) [unfolded s1_def] w2 run0 reward0 q(7) w0
    by blast
qed

subsection \<open>Rmax\<close>

lemma rmax_increment_ger:
  "rmax_increment c dt target_s target_s_prob source_x =
     ger source_x (map2 (\<lambda>sp p. sp - p / (1 + c / dt * p)) target_s target_s_prob)"
  by (simp add: rmax_increment_def ger_def mult.commute)

text \<open>
  C8.  For every Rmax update call that is given a reward (with \<open>dt\<close>, \<open>tc_e_trace\<close> and
  the denominators \<open>1 + (tc_c / dt) * post_spike_prob\<close> non-zero), the eligibility trace
  \<open>prev\<close> (zeros where none is stored) is multiplied by \<open>1 - dt / tc_e_trace\<close> and
  incremented by the outer product of the source traces with
  \<open>post_spike - post_spike_prob / (1 + (tc_c / dt) * post_spike_prob)\<close>, and the weights
  that reach the shared step are \<open>w + nu[0] * reward * trace'\<close>.  On a well-shaped object
  both the trace and these weights are given entry by entry.
\<close>

theorem Rmax_connection_update_trace_then_weights:
  assumes "kw_reward kw = Some r"
    and "conn_dt (connection self) \<noteq> 0" and "rmax_tc_e_trace self \<noteq> 0"
    and "list_all (\<lambda>p. 1 + tc_c self / conn_dt (connection self) * p \<noteq> 0)
           (concat (nodes_s_prob (target self)))"
  shows "\<exists>prev trace'.
     prev = (case rmax_eligibility_trace self of
               None \<Rightarrow> zeros_m (shape0 (get_w self)) (shape1 (get_w self)) | Some t \<Rightarrow> t)
     \<and> trace' = m_add (m_scale (1 - conn_dt (connection self) / rmax_tc_e_trace self) prev)
                  (ger (concat (nodes_x (source self)))
                     (map2 (\<lambda>sp p. sp - p / (1 + tc_c self / conn_dt (connection self) * p))
                        (concat (nodes_s (target self))) (concat (nodes_s_prob (target self)))))
     \<and> Rmax_connection_update kw self =
         Returned (LearningRule_update
           (set_w (m_add (get_w self) (reward_mul (reward_scale (fst (nu self)) r) trace'))
              (self\<lparr>rmax_eligibility_trace := Some trace'\<rparr>)))
     \<and> (rmax_shaped n m self \<longrightarrow> (\<forall>i<n. \<forall>j<m.
          trace' ! i ! j =
            (1 - conn_dt (connection self) / rmax_tc_e_trace self) * prev ! i ! j
            + (concat (nodes_s (target self)) ! j
               - concat (nodes_s_prob (target self)) ! j
                 / (1 + tc_c self / conn_dt (connection self)
                          * concat (nodes_s_prob (target self)) ! j))
              * concat (nodes_x (source self)) ! i))
     \<and> (rmax_shaped n m self \<and> reward_shaped n m r \<longrightarrow> (\<forall>i<n. \<forall>j<m.
          m_add (get_w self) (reward_mul (reward_scale (fst (nu self)) r) trace') ! i ! j
            = get_w self ! i ! j + fst (nu self) * reward_at r i j * trace' ! i ! j))"
proof -
  define prev where "prev = (case rmax_eligibility_trace self of
               None \<Rightarrow> zeros_m (shape0 (get_w self)) (shape1 (get_w self)) | Some t \<Rightarrow> t)"
  define g where "g = map2 (\<lambda>sp p. sp - p / (1 + tc_c self / conn_dt (connection self) * p))
                        (concat (nodes_s (target self))) (concat (nodes_s_prob (target self)))"
  define trace' where
    "trace' = m_add (m_scale (1 - conn_dt (connection self) / rmax_tc_e_trace self) prev)
                  (ger (concat (nodes_x (source self))) g)"
  have call: "Rmax_connection_update kw self =
         Returned (LearningRule_update
           (set_w (m_add (get_w self) (reward_mul (reward_scale (fst (nu self)) r) trace'))
              (self\<lparr>rmax_eligibility_trace := Some trace'\<rparr>)))"
    using assms(1)
    by (simp add: Rmax_connection_update_def Let_def rmax_increment_ger trace'_def prev_def g_def
          get_w_def set_w_def)
  have shapes: "is_mat n m prev \<and> is_mat n m (ger (concat (nodes_x (source self))) g)
      \<and> length g = m \<and> length (concat (nodes_x (source self))) = n"
    if shaped: "rmax_shaped n m self"
  proof -
    have prev: "is_mat n m prev"
      using shaped by (auto simp add: rmax_shaped_def prev_def is_mat_zeros split: option.splits)
    have lg: "length g = m" and lx: "length (concat (nodes_x (source self))) = n"
      using shaped by (simp_all add: rmax_shaped_def g_def)
    have "is_mat n m (ger (concat (nodes_x (source self))) g)"
      using is_mat_ger [of "concat (nodes_x (source self))" g] lg lx by simp
    with prev lg lx show ?thesis by simp
  qed
  have entry: "trace' ! i ! j =
            (1 - conn_dt (connection self) / rmax_tc_e_trace self) * prev ! i ! j
            + (concat (nodes_s (target self)) ! j
               - concat (nodes_s_prob (target self)) ! j
                 / (1 + tc_c self / conn_dt (connection self)
                          * concat (nodes_s_prob (target self)) ! j))
              * concat (nodes_x (source self)) ! i"
    if shaped: "rmax_shaped n m self" and i: "i < n" and j: "j < m" for i j
  proof -
    have gj: "g ! j = concat (nodes_s (target self)) ! j
               - concat (nodes_s_prob (target self)) ! j
                 / (1 + tc_c self / conn_dt (connection self)
                          * concat (nodes_s_prob (target self)) ! j)"
      using shaped j by (simp add: rmax_shaped_def g_def)
    show ?thesis
      unfolding trace'_def
      using shapes [OF shaped] i j
      by (simp add: m_add_nth [of n m] m_scale_nth [of n m] is_mat_m_scale ger_nth gj
            mult.commute)
  qed
  have weights:
    "m_add (get_w self) (reward_mul (reward_scale (fst (nu self)) r) trace') ! i ! j
       = get_w self ! i ! j + fst (nu self) * reward_at r i j * trace' ! i ! j"
    if shaped: "rmax_shaped n m self" and r: "reward_shaped n m r"
      and i: "i < n" and j: "j < m" for i j
  proof -
    have w: "is_mat n m (get_w self)"
      using shaped by (simp add: rmax_shaped_def)
    have t: "is_mat n m trace'"
      unfolding trace'_def using shapes [OF shaped]
      by (simp add: is_mat_m_add is_mat_m_scale)
    have "is_mat n m (reward_mul (reward_scale (fst (nu self)) r) trace')"
      using r t by (simp add: is_mat_reward_mul reward_scale_shaped)
    then show ?thesis
      using w t r i j
      by (simp add: m_add_nth [of n m] reward_mul_nth [of n m] reward_scale_shaped
            reward_scale_at [of n m])
  qed
  show ?thesis
    using call entry weights unfolding trace'_def prev_def g_def by blast
qed

theorem Rmax_connection_update_trace_then_weights_witness:
  "kw_reward example_kwargs = Some (Scalar 2)
   \<and> conn_dt (connection example_rmax) \<noteq> 0 \<and> rmax_tc_e_trace example_rmax \<noteq> 0
   \<and> list_all (\<lambda>p. 1 + tc_c example_rmax / conn_dt (connection example_rmax) * p \<noteq> 0)
        (concat (nodes_s_prob (target example_rmax)))
   \<and> rmax_shaped 2 1 example_rmax
   \<and> rmax_eligibility_trace (outcome_state (Rmax_connection_update example_kwargs example_rmax))
       = Some [[3/7], [3/14]]
   \<and> get_w (outcome_state (Rmax_connection_update example_kwargs example_rmax))
       = [[6/7], [3/7]]
   \<and> kw_reward example_kwargs_tensor = Some (PerSynapse [[2], [7]])
   \<and> rmax_shaped 2 1 example_rmax_running \<and> reward_shaped 2 1 (PerSynapse [[2], [7]])
   \<and> rmax_eligibility_trace
        (outcome_state (Rmax_connection_update example_kwargs_tensor example_rmax_running))
       = Some [[449/90], [1691/180]]
   \<and> get_w (outcome_state (Rmax_connection_update example_kwargs_tensor example_rmax_running))
       = [[464/15], [11957/60]]
   \<and> get_w (outcome_state (Rmax_connection_update example_kwargs_tensor example_rmax_running))
        ! 1 ! 0 = 2 + 3 * 7 * (1691/180)"
proof -
  have h: "kw_reward example_kwargs = Some (Scalar 2)"
    "conn_dt (connection example_rmax) \<noteq> 0" "rmax_tc_e_trace example_rmax \<noteq> 0"
    "list_all (\<lambda>p. 1 + tc_c example_rmax / conn_dt (connection example_rmax) * p \<noteq> 0)
        (concat (nodes_s_prob (target example_rmax)))"
    by (simp_all add: example_kwargs_def example_rmax_def example_target1_def)
  have shaped: "rmax_shaped 2 1 example_rmax"
    by (simp add: rmax_shaped_def is_mat_def get_w_def example_rmax_def example_source1_def
          example_target1_def)
  from Rmax_connection_update_trace_then_weights [OF h, of 2 1]
  obtain prev trace' where
    p: "prev = (case rmax_eligibility_trace example_rmax of
               None \<Rightarrow> zeros_m (shape0 (get_w example_rmax)) (shape1 (get_w example_rmax))
             | Some t \<Rightarrow> t)"
    and t: "trace' = m_add
              (m_scale (1 - conn_dt (connection example_rmax) / rmax_tc_e_trace example_rmax) prev)
              (ger (concat (nodes_x (source example_rmax)))
                 (map2 (\<lambda>sp p. sp - p / (1 + tc_c example_rmax
                                            / conn_dt (connection example_rmax) * p))
                    (concat (nodes_s (target example_rmax)))
                    (concat (nodes_s_prob (target example_rmax)))))"
    and c: "Rmax_connection_update example_kwargs example_rmax =
         Returned (LearningRule_update
           (set_w (m_add (get_w example_rmax)
                     (reward_mul (reward_scale (fst (nu example_rmax)) (Scalar 2)) trace'))
              (example_rmax\<lparr>rmax_eligibility_trace := Some trace'\<rparr>)))"
    by blast
  have trace': "trace' = [[3/7], [3/14]]"
    unfolding t p
    by (simp add: example_rmax_def example_source1_def example_target1_def shape0_def shape1_def
          tensor_defs)
  have first:
    "rmax_eligibility_trace (outcome_state (Rmax_connection_update example_kwargs example_rmax))
       = Some [[3/7], [3/14]]"
    unfolding c trace' by (simp add: LearningRule_update_def Let_def set_w_def)
  have second: "get_w (outcome_state (Rmax_connection_update example_kwargs example_rmax))
       = [[6/7], [3/7]]"
    unfolding c trace'
    by (simp add: LearningRule_update_conn_w Let_def example_rmax_def v_scale_def v_add_def
          m_scale_def m_add_def get_w_def set_w_def)
  let ?self = example_rmax_running
  let ?r = "PerSynapse [[2], [7]]"
  have h2: "kw_reward example_kwargs_tensor = Some ?r"
    "conn_dt (connection ?self) \<noteq> 0" "rmax_tc_e_trace ?self \<noteq> 0"
    "list_all (\<lambda>p. 1 + tc_c ?self / conn_dt (connection ?self) * p \<noteq> 0)
        (concat (nodes_s_prob (target ?self)))"
    by (simp_all add: example_kwargs_tensor_def example_rmax_running_def example_target1_def)
  have shaped2: "rmax_shaped 2 1 ?self" and rs: "reward_shaped 2 1 ?r"
    by (simp_all add: rmax_shaped_def is_mat_def get_w_def example_rmax_running_def
          example_source1_def example_target1_def)
  have s: "get_w ?self = [[1], [2]]" "nu ?self = (3, 5)" "weight_decay ?self = 0"
    "conn_wmin (connection ?self) = NegInf" "conn_wmax (connection ?self) = PosInf"
    "conn_dt (connection ?self) = 2" "rmax_tc_e_trace ?self = 25" "tc_c ?self = 5"
    "rmax_eligibility_trace ?self = Some [[5], [10]]"
    "concat (nodes_x (source ?self)) = [1/2, 1/4]" "concat (nodes_s (target ?self)) = [1]"
    "concat (nodes_s_prob (target ?self)) = [1/2]"
    by (simp_all add: get_w_def example_rmax_running_def example_source1_def
          example_target1_def)
  from Rmax_connection_update_trace_then_weights [OF h2, of 2 1]
  obtain prev2 trace2 where
    p2: "prev2 = (case rmax_eligibility_trace ?self of
               None \<Rightarrow> zeros_m (shape0 (get_w ?self)) (shape1 (get_w ?self)) | Some t \<Rightarrow> t)"
    and c2: "Rmax_connection_update example_kwargs_tensor ?self =
         Returned (LearningRule_update
           (set_w (m_add (get_w ?self) (reward_mul (reward_scale (fst (nu ?self)) ?r) trace2))
              (?self\<lparr>rmax_eligibility_trace := Some trace2\<rparr>)))"
    and e2: "rmax_shaped 2 1 ?self \<longrightarrow> (\<forall>i<2. \<forall>j<1.
          trace2 ! i ! j =
            (1 - conn_dt (connection ?self) / rmax_tc_e_trace ?self) * prev2 ! i ! j
            + (concat (nodes_s (target ?self)) ! j
               - concat (nodes_s_prob (target ?self)) ! j
                 / (1 + tc_c ?self / conn_dt (connection ?self)
                          * concat (nodes_s_prob (target ?self)) ! j))
              * concat (nodes_x (source ?self)) ! i)"
    and t2: "trace2 = m_add
              (m_scale (1 - conn_dt (connection ?self) / rmax_tc_e_trace ?self) prev2)
              (ger (concat (nodes_x (source ?self)))
                 (map2 (\<lambda>sp p. sp - p / (1 + tc_c ?self / conn_dt (connection ?self) * p))
                    (concat (nodes_s (target ?self)))
                    (concat (nodes_s_prob (target ?self)))))"
    and w2: "rmax_shaped 2 1 ?self \<and> reward_shaped 2 1 ?r \<longrightarrow> (\<forall>i<2. \<forall>j<1.
          m_add (get_w ?self) (reward_mul (reward_scale (fst (nu ?self)) ?r) trace2) ! i ! j
            = get_w ?self ! i ! j + fst (nu ?self) * reward_at ?r i j * trace2 ! i ! j)"
    by blast
  let ?W = "m_add (get_w ?self) (reward_mul (reward_scale (fst (nu ?self)) ?r) trace2)"
  have trace2: "trace2 = [[449/90], [1691/180]]"
    unfolding t2 p2 s by (simp add: tensor_defs)
  from e2 shaped2 have t10: "trace2 ! 1 ! 0 = (1 - 2 / 25) * 10 + (1 - (1/2) / (1 + 5 / 2 * (1/2))) * (1/4)"
    unfolding p2 s by simp
  have W: "?W = [[464/15], [11957/60]]"
    unfolding s trace2 by (simp add: tensor_defs m_mul_def)
  from w2 shaped2 rs have W10: "?W ! 1 ! 0 = 2 + 3 * 7 * (1691/180)"
    unfolding s trace2 by simp
  have res: "outcome_state (Rmax_connection_update example_kwargs_tensor ?self)
      = LearningRule_update (set_w ?W (?self\<lparr>rmax_eligibility_trace := Some trace2\<rparr>))"
    unfolding c2 by simp
  have third: "rmax_eligibility_trace
        (outcome_state (Rmax_connection_update example_kwargs_tensor ?self))
       = Some [[449/90], [1691/180]]"
    unfolding res trace2 by (simp add: LearningRule_update_def Let_def set_w_def)
  have "get_w (outcome_state (Rmax_connection_update example_kwargs_tensor ?self)) = ?W"
    unfolding res
    by (simp add: LearningRule_update_conn_w Let_def m_scale_one example_rmax_running_def
          set_w_def get_w_def)
  with W W10 have fourth:
    "get_w (outcome_state (Rmax_connection_update example_kwargs_tensor ?self))
       = [[464/15], [11957/60]]"
    "get_w (outcome_state (Rmax_connection_update example_kwargs_tensor ?self)) ! 1 ! 0
       = 2 + 3 * 7 * (1691/180)"
    by simp_all
  from h shaped first second h2(1) shaped2 rs third fourth show ?thesis
    by blast
qed

section \<open>The calibrated lookup of WeightDependentPostPre\<close>

subsection \<open>Loops that can raise\<close>

lemma traverse_total:
  assumes "\<forall>i<length as. \<exists>b. f (as ! i) = Inr b"
  shows "\<exists>bs. traverse f as = Inr bs \<and> length bs = length as
           \<and> (\<forall>i<length as. f (as ! i) = Inr (bs ! i))"
  using assms
proof (induction as)
  case Nil
  then show ?case by simp
next
  case (Cons a as)
  from Cons.prems obtain b where b: "f a = Inr b"
    by (auto simp add: All_less_Suc2)
  from Cons.prems have "\<forall>i<length as. \<exists>b. f (as ! i) = Inr b"
    by (auto simp add: All_less_Suc2)
  from Cons.IH [OF this] obtain bs where bs: "traverse f as = Inr bs" "length bs = length as"
    "\<forall>i<length as. f (as ! i) = Inr (bs ! i)"
    by blast
  then show ?case
    using b by (simp add: All_less_Suc2)
qed

lemma traverse2_total:
  assumes "length as = length bs"
    and "\<forall>i<length as. \<exists>c. f (as ! i) (bs ! i) = Inr c"
  shows "\<exists>cs. traverse2 f as bs = Inr cs \<and> length cs = length as
           \<and> (\<forall>i<length as. f (as ! i) (bs ! i) = Inr (cs ! i))"
  using assms
proof (induction as bs rule: list_induct2)
  case Nil
  then show ?case by simp
next
  case (Cons a as b bs)
  from Cons.prems obtain c where c: "f a b = Inr c"
    by (auto simp add: All_less_Suc2)
  from Cons.prems have "\<forall>i<length as. \<exists>c. f (as ! i) (bs ! i) = Inr c"
    by (auto simp add: All_less_Suc2)
  from Cons.IH [OF this] obtain cs where cs: "traverse2 f as bs = Inr cs"
    "length cs = length as" "\<forall>i<length as. f (as ! i) (bs ! i) = Inr (cs ! i)"
    by blast
  then show ?case
    using c by (simp add: All_less_Suc2)
qed

subsection \<open>The table that the constructor loads\<close>

lemma fill_row_length: "fill_row row k vs = Inr row' \<Longrightarrow> length row' = length row"
  by (induction row k vs rule: fill_row.induct) (auto split: if_splits)

lemma fill_table_shape:
  "fill_table tab i lines = Inr tab' \<Longrightarrow> is_mat n m tab \<Longrightarrow> is_mat n m tab'"
proof (induction tab i lines rule: fill_table.induct)
  case (1 tab i)
  then show ?case by simp
next
  case (2 tab i line lines)
  show ?case
  proof (cases "line = []")
    case True
    with 2 show ?thesis by simp
  next
    case False
    with "2.prems" have i: "i < length tab"
      by (auto split: if_splits)
    with False "2.prems" obtain row where row: "fill_row (tab ! i) 0 line = Inr row"
      and rest: "fill_table (tab[i := row]) (Suc i) lines = Inr tab'"
      by (auto split: sum.splits)
    have "length row = length (tab ! i)"
      using row by (rule fill_row_length)
    with "2.prems"(2) i have "is_mat n m (tab[i := row])"
      by (auto simp add: is_mat_def list_all_length nth_list_update)
    with "2.IH"(2) [OF False i row rest] show ?thesis .
  qed
qed

lemma is_mat_zeros_m: "is_mat n m (zeros_m n m)"
  by (simp add: is_mat_def zeros_m_def zeros_v_def list_all_length)

lemma load_STDP_base_shape: "load_STDP_base lines = Inr tab \<Longrightarrow> is_mat 101 120 tab"
  unfolding load_STDP_base_def by (erule fill_table_shape) (rule is_mat_zeros_m)

subsection \<open>One synapse\<close>

lemma guarded_index_outside:
  "fl_gt second 120 \<or> fl_lt second 0 \<Longrightarrow> guarded_index second = Fin 0"
  by (simp add: guarded_index_def)

lemma tensor_get_in_range:
  "0 \<le> i \<Longrightarrow> i < int (length t) \<Longrightarrow> tensor_get t i = Inr (t ! nat i)"
  by (simp add: tensor_get_def Let_def)

lemma lookup_cell_outside:
  assumes "is_mat 101 120 base" and "0 \<le> first" and "first \<le> 100"
    and "fl_gt second 120 \<or> fl_lt second 0"
  shows "lookup_cell base first second = Inr (base ! nat first ! 0)"
proof -
  have row: "tensor_get base first = Inr (base ! nat first)"
    using assms(1-3) by (intro tensor_get_in_range) (simp_all add: is_mat_def)
  have "length (base ! nat first) = 120"
    using assms(1-3) by (intro is_mat_nth [of 101]) simp_all
  then have "tensor_get (base ! nat first) 0 = Inr (base ! nat first ! 0)"
    by (simp add: tensor_get_def)
  then show ?thesis
    using row assms(4) by (simp add: lookup_cell_def guarded_index_def)
qed

lemma lookup_cell_inside:
  assumes "is_mat 101 120 base" and "0 \<le> first" and "first \<le> 100"
    and "0 \<le> v" and "v < 120"
  shows "\<exists>c. lookup_cell base first (Fin v) = Inr c"
proof -
  have row: "tensor_get base first = Inr (base ! nat first)"
    using assms(1-3) by (intro tensor_get_in_range) (simp_all add: is_mat_def)
  have len: "length (base ! nat first) = 120"
    using assms(1-3) by (intro is_mat_nth [of 101]) simp_all
  have "0 \<le> \<lfloor>v\<rfloor>" "\<lfloor>v\<rfloor> < 120"
    using assms(4,5) by (simp_all add: floor_less_iff)
  then have "tensor_get (base ! nat first) \<lfloor>v\<rfloor> = Inr (base ! nat first ! nat \<lfloor>v\<rfloor>)"
    using len by (intro tensor_get_in_range) simp_all
  then show ?thesis
    using row assms(4,5) by (simp add: lookup_cell_def guarded_index_def)
qed

lemma percent_entry_nonzero:
  "nu0 \<noteq> 0 \<Longrightarrow> percent_entry nu0 v = Inr \<bar>py_round (v / nu0 * 100)\<bar>"
  by (simp add: percent_entry_def Let_def abs_if)

lemma round_to_percent_total:
  assumes "fst (nu self) \<noteq> 0" and "is_mat n m t"
  shows "\<exists>first_index. round_to_percent self t = Inr first_index \<and> is_mat n m first_index
     \<and> (\<forall>i<n. \<forall>k<m. first_index ! i ! k = \<bar>py_round (t ! i ! k / fst (nu self) * 100)\<bar>)"
proof -
  let ?f = "percent_entry (fst (nu self))"
  have rows: "\<exists>bs. traverse ?f (t ! i) = Inr bs \<and> length bs = length (t ! i)
           \<and> (\<forall>k<length (t ! i). ?f (t ! i ! k) = Inr (bs ! k))" for i
    by (rule traverse_total) (simp add: percent_entry_nonzero assms(1))
  then have "\<forall>i<length t. \<exists>bs. traverse ?f (t ! i) = Inr bs"
    by blast
  from traverse_total [OF this] obtain fi where fi: "traverse (traverse ?f) t = Inr fi"
    "length fi = length t" "\<forall>i<length t. traverse ?f (t ! i) = Inr (fi ! i)"
    by blast
  have n: "length t = n" and m: "\<And>i. i < n \<Longrightarrow> length (t ! i) = m"
    using assms(2) by (simp_all add: is_mat_def list_all_length)
  have entry: "length (fi ! i) = m
      \<and> (\<forall>k<m. fi ! i ! k = \<bar>py_round (t ! i ! k / fst (nu self) * 100)\<bar>)" if "i < n" for i
  proof -
    from rows [of i] obtain bs where bs: "traverse ?f (t ! i) = Inr bs"
      "length bs = length (t ! i)" "\<forall>k<length (t ! i). ?f (t ! i ! k) = Inr (bs ! k)"
      by blast
    with fi(3) that n have "fi ! i = bs" by simp
    with bs m [OF that] show ?thesis
      by (simp add: percent_entry_nonzero assms(1))
  qed
  then have "is_mat n m fi"
    using fi(2) n by (simp add: is_mat_def list_all_length)
  with fi(1) entry show ?thesis
    unfolding round_to_percent_def by blast
qed

subsection \<open>The whole lookup\<close>

text \<open>
  C5.  In the dense calibrated lookup, on a 101-by-120 table, with weights and \<open>delta\<close>
  of one shape, \<open>nu[0]\<close> non-zero and every row index at most 100: when every delta index
  \<open>delta + 60\<close> is either outside \<open>[0, 120]\<close> or a number in \<open>[0, 120)\<close>, the lookup raises
  nothing, and for every synapse whose delta index is outside \<open>[0, 120]\<close> (above 120,
  below 0, or an infinity) the index is replaced by 0 and the result is the table entry
  \<open>[row, 0]\<close> of that synapse's row.
\<close>

theorem delta_w_custom_out_of_range_index:
  assumes table: "is_mat 101 120 (STDP_base self)"
    and w: "is_mat n m (get_w self)" and delta: "is_mat n m delta"
    and nu0: "fst (nu self) \<noteq> 0"
    and rows: "\<forall>i<n. \<forall>k<m. \<bar>py_round (get_w self ! i ! k / fst (nu self) * 100)\<bar> \<le> 100"
    and cols: "\<forall>i<n. \<forall>k<m.
        fl_gt (fl_add (delta ! i ! k) 60) 120 \<or> fl_lt (fl_add (delta ! i ! k) 60) 0
        \<or> (\<exists>v. fl_add (delta ! i ! k) 60 = Fin v \<and> 0 \<le> v \<and> v < 120)"
  shows "\<exists>d. delta_w_custom self delta = Inr d \<and> is_mat n m d
     \<and> (\<forall>i<n. \<forall>k<m.
          fl_gt (fl_add (delta ! i ! k) 60) 120 \<or> fl_lt (fl_add (delta ! i ! k) 60) 0 \<longrightarrow>
          guarded_index (fl_add (delta ! i ! k) 60) = Fin 0
          \<and> d ! i ! k
              = STDP_base self ! nat \<bar>py_round (get_w self ! i ! k / fst (nu self) * 100)\<bar> ! 0)"
proof -
  let ?base = "STDP_base self"
  let ?row = "\<lambda>i k. \<bar>py_round (get_w self ! i ! k / fst (nu self) * 100)\<bar>"
  define si where "si = map (map (\<lambda>d. fl_add d 60)) delta"
  from round_to_percent_total [OF nu0 w] obtain fi
    where fi: "round_to_percent self (get_w self) = Inr fi" "is_mat n m fi"
      and fi_nth: "\<forall>i<n. \<forall>k<m. fi ! i ! k = ?row i k"
    by blast
  have len_fi: "length fi = n" and len_fi_row: "\<And>i. i < n \<Longrightarrow> length (fi ! i) = m"
    using fi(2) by (simp_all add: is_mat_def list_all_length)
  have len_si: "length si = n" and len_si_row: "\<And>i. i < n \<Longrightarrow> length (si ! i) = m"
    using delta by (simp_all add: si_def is_mat_def list_all_length)
  have si_nth: "si ! i ! k = fl_add (delta ! i ! k) 60" if "i < n" "k < m" for i k
    using that delta by (simp add: si_def is_mat_def list_all_length)
  have cell: "\<exists>c. lookup_cell ?base (fi ! i ! k) (si ! i ! k) = Inr c
      \<and> (fl_gt (si ! i ! k) 120 \<or> fl_lt (si ! i ! k) 0 \<longrightarrow> c = ?base ! nat (?row i k) ! 0)"
    if i: "i < n" and k: "k < m" for i k
  proof -
    have first: "fi ! i ! k = ?row i k" "0 \<le> fi ! i ! k" "fi ! i ! k \<le> 100"
      using fi_nth rows i k by simp_all
    from cols i k consider
      (outside) "fl_gt (si ! i ! k) 120 \<or> fl_lt (si ! i ! k) 0"
      | (inside) v where "si ! i ! k = Fin v" "0 \<le> v" "v < 120"
                   "\<not> (fl_gt (si ! i ! k) 120 \<or> fl_lt (si ! i ! k) 0)"
      by (auto simp add: si_nth)
    then show ?thesis
    proof cases
      case outside
      from lookup_cell_outside [OF table first(2,3) outside] show ?thesis
        by (simp add: first(1))
    next
      case inside
      from lookup_cell_inside [OF table first(2,3) inside(2,3)] inside(1,4) show ?thesis
        by auto
    qed
  qed
  have row: "\<exists>cs. traverse2 (lookup_cell ?base) (fi ! i) (si ! i) = Inr cs \<and> length cs = m
      \<and> (\<forall>k<m. lookup_cell ?base (fi ! i ! k) (si ! i ! k) = Inr (cs ! k))" if i: "i < n" for i
  proof -
    have "length (fi ! i) = length (si ! i)"
      using len_fi_row [OF i] len_si_row [OF i] by simp
    moreover have "\<forall>k<length (fi ! i). \<exists>c. lookup_cell ?base (fi ! i ! k) (si ! i ! k) = Inr c"
      using cell [OF i] len_fi_row [OF i] by blast
    ultimately show ?thesis
      using traverse2_total [of "fi ! i" "si ! i" "lookup_cell ?base"] len_fi_row [OF i]
      by simp
  qed
  have "length fi = length si"
    using len_fi len_si by simp
  moreover have "\<forall>i<length fi. \<exists>cs. traverse2 (lookup_cell ?base) (fi ! i) (si ! i) = Inr cs"
    using row len_fi by blast
  ultimately obtain d where d: "traverse2 (traverse2 (lookup_cell ?base)) fi si = Inr d"
    "length d = length fi"
    "\<forall>i<length fi. traverse2 (lookup_cell ?base) (fi ! i) (si ! i) = Inr (d ! i)"
    using traverse2_total [of fi si "traverse2 (lookup_cell ?base)"] by blast
  have call: "delta_w_custom self delta = Inr d"
    using fi(1) d(1) by (simp add: delta_w_custom_def si_def)
  have d_row: "length (d ! i) = m
      \<and> (\<forall>k<m. lookup_cell ?base (fi ! i ! k) (si ! i ! k) = Inr (d ! i ! k))" if i: "i < n" for i
  proof -
    from row [OF i] obtain cs where cs: "traverse2 (lookup_cell ?base) (fi ! i) (si ! i) = Inr cs"
      "length cs = m" "\<forall>k<m. lookup_cell ?base (fi ! i ! k) (si ! i ! k) = Inr (cs ! k)"
      by blast
    with d(3) i len_fi have "d ! i = cs" by simp
    with cs show ?thesis by simp
  qed
  have shape: "is_mat n m d"
    using d(2) len_fi d_row by (simp add: is_mat_def list_all_length)
  have entry: "guarded_index (fl_add (delta ! i ! k) 60) = Fin 0
          \<and> d ! i ! k = ?base ! nat (?row i k) ! 0"
    if i: "i < n" and k: "k < m"
      and out: "fl_gt (fl_add (delta ! i ! k) 60) 120 \<or> fl_lt (fl_add (delta ! i ! k) 60) 0"
    for i k
  proof -
    from cell [OF i k] out obtain c where
      "lookup_cell ?base (fi ! i ! k) (si ! i ! k) = Inr c" "c = ?base ! nat (?row i k) ! 0"
      by (auto simp add: si_nth [OF i k])
    moreover have "lookup_cell ?base (fi ! i ! k) (si ! i ! k) = Inr (d ! i ! k)"
      using d_row [OF i] k by blast
    ultimately show ?thesis
      using guarded_index_outside [OF out] by simp
  qed
  from call shape entry show ?thesis
    by blast
qed

lemmas lookup_defs =
  delta_w_custom_def round_to_percent_def percent_entry_def py_round_def lookup_cell_def
  guarded_index_def tensor_get_def example_wdpp_def example_table_def get_w_def Let_def

theorem delta_w_custom_out_of_range_index_witness:
  "is_mat 101 120 (STDP_base (example_wdpp [[0, 1/2]] (1, 1)))
   \<and> fl_add (Fin 61) 60 = Fin 121 \<and> fl_add (Fin (- 65)) 60 = Fin (- 5)
   \<and> (\<exists>d. delta_w_custom (example_wdpp [[0, 1/2]] (1, 1)) [[Fin 61, Fin (- 65)]] = Inr d
         \<and> d ! 0 ! 0 = 0 \<and> d ! 0 ! 1 = 50000)"
proof -
  let ?self = "example_wdpp [[0, 1/2]] (1, 1)"
  let ?delta = "[[Fin 61, Fin (- 65)]]"
  have table: "is_mat 101 120 (STDP_base ?self)"
    by (simp add: example_wdpp_def example_table_def is_mat_def list_all_length)
  have w: "is_mat 1 2 (get_w ?self)" and delta: "is_mat 1 2 ?delta"
    and nu0: "fst (nu ?self) \<noteq> 0"
    by (simp_all add: example_wdpp_def is_mat_def get_w_def)
  have rows: "\<forall>i<1. \<forall>k<2. \<bar>py_round (get_w ?self ! i ! k / fst (nu ?self) * 100)\<bar> \<le> 100"
    by (simp add: example_wdpp_def get_w_def py_round_def numeral_2_eq_2 All_less_Suc)
  have cols: "\<forall>i<1. \<forall>k<2.
        fl_gt (fl_add (?delta ! i ! k) 60) 120 \<or> fl_lt (fl_add (?delta ! i ! k) 60) 0
        \<or> (\<exists>v. fl_add (?delta ! i ! k) 60 = Fin v \<and> 0 \<le> v \<and> v < 120)"
    by (simp add: numeral_2_eq_2 All_less_Suc)
  from delta_w_custom_out_of_range_index [OF table w delta nu0 rows cols]
  obtain d where d: "delta_w_custom ?self ?delta = Inr d"
    and entry: "\<forall>i<1. \<forall>k<2.
          fl_gt (fl_add (?delta ! i ! k) 60) 120 \<or> fl_lt (fl_add (?delta ! i ! k) 60) 0 \<longrightarrow>
          guarded_index (fl_add (?delta ! i ! k) 60) = Fin 0
          \<and> d ! i ! k
              = STDP_base ?self ! nat \<bar>py_round (get_w ?self ! i ! k / fst (nu ?self) * 100)\<bar> ! 0"
    by blast
  from entry [rule_format, of 0 0] have "d ! 0 ! 0 = 0"
    by (simp add: example_wdpp_def example_table_def get_w_def py_round_def)
  moreover from entry [rule_format, of 0 1] have "d ! 0 ! 1 = 50000"
    by (simp add: example_wdpp_def example_table_def get_w_def py_round_def)
  ultimately show ?thesis
    using table d by auto
qed

text \<open>
  C10 fails on the code.  The guard \<^verbatim>\<open>second_index > 120\<close> lets the delta index 120
  through to a table of 120 columns, and nothing bounds the row index
  \<open>round (|w| / nu[0] * 100)\<close> by 100: both reads raise \<^verbatim>\<open>IndexError\<close>.  The second happens
  in an ordinary update call as soon as a weight exceeds \<^verbatim>\<open>nu[0]\<close>.
\<close>

theorem delta_w_custom_index_error:
  "guarded_index (fl_add (Fin 60) 60) = Fin 120
   \<and> delta_w_custom (example_wdpp [[0]] (1, 1)) [[Fin 60]] = Inl IndexError
   \<and> round_to_percent (example_wdpp [[1]] (1/2, 1/2)) [[1]] = Inr [[200]]
   \<and> delta_w_custom (example_wdpp [[1]] (1/2, 1/2)) [[Fin 0]] = Inl IndexError
   \<and> WeightDependentPostPre_connection_update no_kwargs (example_wdpp [[1], [1]] (1/2, 1/2))
       = Raised IndexError (example_wdpp [[1], [1]] (1/2, 1/2))"
proof -
  have "delta_w_custom (example_wdpp [[0]] (1, 1)) [[Fin 60]] = Inl IndexError"
    by (simp add: lookup_defs)
  moreover have "round_to_percent (example_wdpp [[1]] (1/2, 1/2)) [[1]] = Inr [[200]]"
    by (simp add: lookup_defs)
  moreover have "delta_w_custom (example_wdpp [[1]] (1/2, 1/2)) [[Fin 0]] = Inl IndexError"
    by (simp add: lookup_defs)
  moreover have
    "delta_w_custom (example_wdpp [[1], [1]] (1/2, 1/2)) [[NInf], [NInf]] = Inl IndexError"
    by (simp add: lookup_defs)
  then have
    "WeightDependentPostPre_connection_update no_kwargs (example_wdpp [[1], [1]] (1/2, 1/2))
       = Raised IndexError (example_wdpp [[1], [1]] (1/2, 1/2))"
    by (simp add: WeightDependentPostPre_connection_update_def Let_def example_source1_def
          example_target1_def tensor_defs example_wdpp_def)
  ultimately show ?thesis
    by (simp add: guarded_index_def)
qed

section \<open>Which calls need a reward\<close>

lemma traverse_error: "traverse f as = Inl e \<Longrightarrow> \<exists>a. f a = Inl e"
  by (induction as) (auto split: sum.splits)

lemma traverse2_error:
  "traverse2 f as bs = Inl e \<Longrightarrow> e = IndexError \<or> (\<exists>a b. f a b = Inl e)"
  by (induction f as bs rule: traverse2.induct) (auto split: sum.splits)

lemma percent_entry_error:
  "percent_entry nu0 v = Inl e \<Longrightarrow> e = ValueError \<or> e = OverflowError"
  by (auto simp add: percent_entry_def Let_def split: if_splits)

lemma tensor_get_error: "tensor_get t i = Inl e \<Longrightarrow> e = IndexError"
  by (auto simp add: tensor_get_def Let_def split: if_splits)

lemma py_int_error: "py_int v = Inl e \<Longrightarrow> e = OverflowError \<or> e = ValueError"
  by (cases v) auto

lemma lookup_cell_error:
  "lookup_cell base first second = Inl e \<Longrightarrow>
   e = IndexError \<or> e = OverflowError \<or> e = ValueError"
  by (auto simp add: lookup_cell_def split: sum.splits
        dest: tensor_get_error py_int_error)

lemma delta_w_custom_error:
  assumes "delta_w_custom self delta = Inl e"
  shows "e = IndexError \<or> e = OverflowError \<or> e = ValueError"
proof (cases "round_to_percent self (get_w self)")
  case (Inl e')
  with assms have "e' = e"
    by (simp add: delta_w_custom_def)
  with Inl obtain row where "traverse (percent_entry (fst (nu self))) row = Inl e"
    unfolding round_to_percent_def by (blast dest: traverse_error)
  then show ?thesis
    by (blast dest: traverse_error percent_entry_error)
next
  case (Inr first_index)
  with assms have
    "traverse2 (traverse2 (lookup_cell (STDP_base self))) first_index
       (map (map (\<lambda>d. fl_add d 60)) delta) = Inl e"
    by (simp add: delta_w_custom_def)
  then show ?thesis
    by (blast dest: traverse2_error lookup_cell_error)
qed

lemma WeightDependentPostPre_raises:
  assumes "WeightDependentPostPre_connection_update kw self = Raised e s"
  shows "(e = IndexError \<or> e = OverflowError \<or> e = ValueError) \<and> s = self"
  using assms
  by (auto simp add: WeightDependentPostPre_connection_update_def Let_def
        split: sum.splits dest: delta_w_custom_error)

text \<open>
  C9.  The dense updates of the reward-modulated rules MSTDP, MSTDPET and Rmax raise
  \<^verbatim>\<open>KeyError\<close> for the key \<^verbatim>\<open>reward\<close> whenever the call passes no reward, and the weights
  are then as before the call; with a reward they return.  The updates of NoOp, PostPre,
  Hebbian and WeightDependentPostPre do not read the keyword arguments: a call with any
  arguments does what a call without arguments does, and none of them raises \<^verbatim>\<open>KeyError\<close>.
\<close>

theorem reward_is_required_by_reward_modulated_rules_only:
  "(kw_reward kw = None \<longrightarrow>
       (\<exists>s. MSTDP_connection_update kw mstdp_self = Raised (KeyError ''reward'') s
             \<and> get_w s = get_w mstdp_self)
     \<and> (\<exists>s. MSTDPET_connection_update kw mstdpet_self = Raised (KeyError ''reward'') s
             \<and> get_w s = get_w mstdpet_self)
     \<and> (\<exists>s. Rmax_connection_update kw rmax_self = Raised (KeyError ''reward'') s
             \<and> get_w s = get_w rmax_self))
   \<and> (kw_reward kw \<noteq> None \<longrightarrow>
         (\<exists>s. MSTDP_connection_update kw mstdp_self = Returned s)
       \<and> (\<exists>s. MSTDPET_connection_update kw mstdpet_self = Returned s)
       \<and> (\<exists>s. Rmax_connection_update kw rmax_self = Returned s))
   \<and> NoOp_update kw noop_self = NoOp_update no_kwargs noop_self
   \<and> PostPre_connection_update kw postpre_self = PostPre_connection_update no_kwargs postpre_self
   \<and> Hebbian_connection_update kw hebbian_self
       = Hebbian_connection_update no_kwargs hebbian_self
   \<and> WeightDependentPostPre_connection_update kw wdpp_self
       = WeightDependentPostPre_connection_update no_kwargs wdpp_self
   \<and> (\<forall>k s. WeightDependentPostPre_connection_update no_kwargs wdpp_self
               \<noteq> Raised (KeyError k) s)"
proof -
  have missing:
    "\<exists>s. MSTDP_connection_update kw mstdp_self = Raised (KeyError ''reward'') s
             \<and> get_w s = get_w mstdp_self"
    "\<exists>s. MSTDPET_connection_update kw mstdpet_self = Raised (KeyError ''reward'') s
             \<and> get_w s = get_w mstdpet_self"
    "\<exists>s. Rmax_connection_update kw rmax_self = Raised (KeyError ''reward'') s
             \<and> get_w s = get_w rmax_self"
    if "kw_reward kw = None"
    using that
    by (simp_all add: MSTDP_connection_update_def MSTDPET_connection_update_def
          Rmax_connection_update_def Let_def get_w_def)
  have present:
    "\<exists>s. MSTDP_connection_update kw mstdp_self = Returned s"
    "\<exists>s. MSTDPET_connection_update kw mstdpet_self = Returned s"
    "\<exists>s. Rmax_connection_update kw rmax_self = Returned s"
    if "kw_reward kw \<noteq> None"
    using that
    by (auto simp add: MSTDP_connection_update_def MSTDPET_connection_update_def
          Rmax_connection_update_def Let_def)
  have ignored:
    "NoOp_update kw noop_self = NoOp_update no_kwargs noop_self"
    "PostPre_connection_update kw postpre_self = PostPre_connection_update no_kwargs postpre_self"
    "Hebbian_connection_update kw hebbian_self
       = Hebbian_connection_update no_kwargs hebbian_self"
    "WeightDependentPostPre_connection_update kw wdpp_self
       = WeightDependentPostPre_connection_update no_kwargs wdpp_self"
    by (simp_all add: NoOp_update_def PostPre_connection_update_def
          Hebbian_connection_update_def WeightDependentPostPre_connection_update_def)
  have no_key: "WeightDependentPostPre_connection_update no_kwargs wdpp_self
               \<noteq> Raised (KeyError k) s" for k s
    using WeightDependentPostPre_raises [of no_kwargs wdpp_self "KeyError k" s] by auto
  from missing present ignored no_key show ?thesis
    by blast
qed

theorem reward_is_required_by_reward_modulated_rules_only_witness:
  "kw_reward no_kwargs = None
   \<and> (\<exists>s. MSTDP_connection_update no_kwargs example_mstdp = Raised (KeyError ''reward'') s
          \<and> get_w s = [[0], [0]])
   \<and> (\<exists>s. MSTDPET_connection_update no_kwargs example_mstdpet = Raised (KeyError ''reward'') s
          \<and> get_w s = [[0], [0]])
   \<and> (\<exists>s. Rmax_connection_update no_kwargs example_rmax = Raised (KeyError ''reward'') s
          \<and> get_w s = [[0], [0]])
   \<and> kw_reward example_kwargs \<noteq> None
   \<and> (\<exists>s. MSTDP_connection_update example_kwargs example_mstdp = Returned s)
   \<and> (\<exists>s. MSTDPET_connection_update example_kwargs example_mstdpet = Returned s)
   \<and> (\<exists>s. Rmax_connection_update example_kwargs example_rmax = Returned s)"
proof -
  have none: "kw_reward no_kwargs = None" and some: "kw_reward example_kwargs \<noteq> None"
    by (simp_all add: no_kwargs_def example_kwargs_def)
  have w: "get_w example_mstdp = [[0], [0]]" "get_w example_mstdpet = [[0], [0]]"
    "get_w example_rmax = [[0], [0]]"
    by (simp_all add: get_w_def example_mstdp_def example_mstdpet_def example_rmax_def)
  let ?plain = "example_rule PostPre [[0], [0]] NegInf PosInf (1, 1) 0"
  let ?wdpp = "example_wdpp [[0], [0]] (1, 1)"
  note a = reward_is_required_by_reward_modulated_rules_only
             [where kw = no_kwargs and mstdp_self = example_mstdp
                and mstdpet_self = example_mstdpet and rmax_self = example_rmax
                and noop_self = ?plain and postpre_self = ?plain and hebbian_self = ?plain
                and wdpp_self = ?wdpp]
  note b = reward_is_required_by_reward_modulated_rules_only
             [where kw = example_kwargs and mstdp_self = example_mstdp
                and mstdpet_self = example_mstdpet and rmax_self = example_rmax
                and noop_self = ?plain and postpre_self = ?plain and hebbian_self = ?plain
                and wdpp_self = ?wdpp]
  from a none w have
    "(\<exists>s. MSTDP_connection_update no_kwargs example_mstdp = Raised (KeyError ''reward'') s
          \<and> get_w s = [[0], [0]])
     \<and> (\<exists>s. MSTDPET_connection_update no_kwargs example_mstdpet = Raised (KeyError ''reward'') s
          \<and> get_w s = [[0], [0]])
     \<and> (\<exists>s. Rmax_connection_update no_kwargs example_rmax = Raised (KeyError ''reward'') s
          \<and> get_w s = [[0], [0]])"
    by simp
  moreover from b some have
    "(\<exists>s. MSTDP_connection_update example_kwargs example_mstdp = Returned s)
     \<and> (\<exists>s. MSTDPET_connection_update example_kwargs example_mstdpet = Returned s)
     \<and> (\<exists>s. Rmax_connection_update example_kwargs example_rmax = Returned s)"
    by simp
  ultimately show ?thesis
    using none some by simp
qed

end
